theory Spec2Isabelle
  imports Complex_Main
begin

section \<open>The numbers of the engine\<close>

text \<open>
  The calculators of \<^verbatim>\<open>src/js/calculations.js\<close> work on JavaScript numbers. A number
  is modelled as an exact real or one of the three non-finite values, so that a division
  by zero is a value of the model as it is a value of the program. Rounding, overflow to
  \<open>Infinity\<close> and the sign of zero are not modelled: finite results are exact, and zero
  stands for \<open>+0\<close>.
\<close>

datatype jsnum = Fin real | PInf | NInf | NaN

fun js_neg :: "jsnum \<Rightarrow> jsnum" where
  "js_neg (Fin a) = Fin (- a)"
| "js_neg PInf = NInf"
| "js_neg NInf = PInf"
| "js_neg NaN = NaN"

fun js_add :: "jsnum \<Rightarrow> jsnum \<Rightarrow> jsnum" where
  "js_add (Fin a) (Fin b) = Fin (a + b)"
| "js_add NaN _ = NaN"
| "js_add _ NaN = NaN"
| "js_add PInf NInf = NaN"
| "js_add NInf PInf = NaN"
| "js_add PInf _ = PInf"
| "js_add NInf _ = NInf"
| "js_add _ PInf = PInf"
| "js_add _ NInf = NInf"

definition js_sub :: "jsnum \<Rightarrow> jsnum \<Rightarrow> jsnum" where
  "js_sub a b = js_add a (js_neg b)"

text \<open>The sign of an infinite product: \<open>Infinity * 0\<close> is \<open>NaN\<close>.\<close>

definition inf_times :: "bool \<Rightarrow> real \<Rightarrow> jsnum" where
  "inf_times positive a =
     (if a = 0 then NaN else if (0 < a) = positive then PInf else NInf)"

fun js_mul :: "jsnum \<Rightarrow> jsnum \<Rightarrow> jsnum" where
  "js_mul (Fin a) (Fin b) = Fin (a * b)"
| "js_mul NaN _ = NaN"
| "js_mul _ NaN = NaN"
| "js_mul (Fin a) PInf = inf_times True a"
| "js_mul (Fin a) NInf = inf_times False a"
| "js_mul PInf (Fin b) = inf_times True b"
| "js_mul NInf (Fin b) = inf_times False b"
| "js_mul PInf PInf = PInf"
| "js_mul NInf NInf = PInf"
| "js_mul PInf NInf = NInf"
| "js_mul NInf PInf = NInf"

text \<open>
  Division never raises: a finite dividend over zero is \<open>NaN\<close> when it is zero itself and
  an infinity of its own sign otherwise.
\<close>

fun js_div :: "jsnum \<Rightarrow> jsnum \<Rightarrow> jsnum" where
  "js_div (Fin a) (Fin b) =
     (if b \<noteq> 0 then Fin (a / b)
      else if a = 0 then NaN else if 0 < a then PInf else NInf)"
| "js_div NaN _ = NaN"
| "js_div _ NaN = NaN"
| "js_div (Fin a) PInf = Fin 0"
| "js_div (Fin a) NInf = Fin 0"
| "js_div PInf (Fin b) = (if 0 \<le> b then PInf else NInf)"
| "js_div NInf (Fin b) = (if 0 \<le> b then NInf else PInf)"
| "js_div PInf PInf = NaN"
| "js_div PInf NInf = NaN"
| "js_div NInf PInf = NaN"
| "js_div NInf NInf = NaN"

text \<open>Comparisons: every comparison with \<open>NaN\<close> is false.\<close>

fun js_lt :: "jsnum \<Rightarrow> jsnum \<Rightarrow> bool" where
  "js_lt (Fin a) (Fin b) = (a < b)"
| "js_lt NaN _ = False"
| "js_lt _ NaN = False"
| "js_lt PInf _ = False"
| "js_lt _ PInf = True"
| "js_lt _ NInf = False"
| "js_lt NInf _ = True"

definition js_gt :: "jsnum \<Rightarrow> jsnum \<Rightarrow> bool" where
  "js_gt a b = js_lt b a"

definition js_le :: "jsnum \<Rightarrow> jsnum \<Rightarrow> bool" where
  "js_le a b = (a \<noteq> NaN \<and> b \<noteq> NaN \<and> \<not> js_lt b a)"

text \<open>\<open>a || b\<close> on numbers: zero and \<open>NaN\<close> are the falsy ones.\<close>

definition js_or :: "jsnum \<Rightarrow> jsnum \<Rightarrow> jsnum" where
  "js_or a b = (if a = Fin 0 \<or> a = NaN then b else a)"

definition is_integer :: "real \<Rightarrow> bool" where
  "is_integer x = (of_int \<lfloor>x\<rfloor> = x)"

definition is_finite :: "jsnum \<Rightarrow> bool" where
  "is_finite x = (case x of Fin _ \<Rightarrow> True | _ \<Rightarrow> False)"

text \<open>
  \<open>Math.pow\<close>. An exponent of zero gives 1 for every base; a negative base with a
  fractional exponent gives \<open>NaN\<close>; a whole exponent is a repeated product.
\<close>

fun Math_pow :: "jsnum \<Rightarrow> jsnum \<Rightarrow> jsnum" where
  "Math_pow _ NaN = NaN"
| "Math_pow b (Fin e) =
     (if e = 0 then Fin 1
      else case b of
        NaN \<Rightarrow> NaN
      | PInf \<Rightarrow> if 0 < e then PInf else Fin 0
      | NInf \<Rightarrow> if 0 < e then (if is_integer e \<and> odd \<lfloor>e\<rfloor> then NInf else PInf) else Fin 0
      | Fin a \<Rightarrow>
          if a = 0 then (if 0 < e then Fin 0 else PInf)
          else if is_integer e then
            (if 0 < e then Fin (a ^ nat \<lfloor>e\<rfloor>) else Fin (1 / a ^ nat \<lfloor>- e\<rfloor>))
          else if a < 0 then NaN
          else Fin (a powr e))"
| "Math_pow b PInf =
     (case b of
        NaN \<Rightarrow> NaN
      | Fin a \<Rightarrow> if 1 < \<bar>a\<bar> then PInf else if \<bar>a\<bar> = 1 then NaN else Fin 0
      | _ \<Rightarrow> PInf)"
| "Math_pow b NInf =
     (case b of
        NaN \<Rightarrow> NaN
      | Fin a \<Rightarrow> if 1 < \<bar>a\<bar> then Fin 0 else if \<bar>a\<bar> = 1 then NaN else PInf
      | _ \<Rightarrow> Fin 0)"

section \<open>The effective rate\<close>

text \<open>
  \<^verbatim>\<open>
  function calculateEffectiveRate(totalValue, totalInvestment, years) {
    if (totalInvestment <= 0 || years <= 0) return 0;
    return (Math.pow(totalValue / totalInvestment, 1 / years) - 1) * 100;
  }
  \<close>
\<close>

definition calculateEffectiveRate :: "jsnum \<Rightarrow> jsnum \<Rightarrow> jsnum \<Rightarrow> jsnum" where
  "calculateEffectiveRate totalValue totalInvestment years =
     (if js_le totalInvestment (Fin 0) \<or> js_le years (Fin 0) then Fin 0
      else js_mul (js_sub (Math_pow (js_div totalValue totalInvestment) (js_div (Fin 1) years))
                          (Fin 1))
                  (Fin 100))"

text \<open>
  The inflation block, the same in the three calculators:
  \<^verbatim>\<open>
  let inflationAdjustedValue = futureValue;
  let realReturns = returns;
  if (inflationRate > 0) {
    const inflationFactor = Math.pow(1 + inflationRate / 100, years);
    inflationAdjustedValue = futureValue / inflationFactor;
    realReturns = inflationAdjustedValue - totalInvestment;
  }
  \<close>
\<close>

definition inflationAdjust :: "jsnum \<Rightarrow> jsnum \<Rightarrow> jsnum \<Rightarrow> jsnum \<Rightarrow> jsnum \<Rightarrow> jsnum \<times> jsnum" where
  "inflationAdjust futureValue totalInvestment returns inflationRate years =
     (if js_gt inflationRate (Fin 0) then
        (let inflationFactor = Math_pow (js_add (Fin 1) (js_div inflationRate (Fin 100))) years;
             inflationAdjustedValue = js_div futureValue inflationFactor
         in (inflationAdjustedValue, js_sub inflationAdjustedValue totalInvestment))
      else (futureValue, returns))"

section \<open>Results\<close>

text \<open>
  Every calculator returns an object literal. The fields are those of the source; a field
  whose name is also the name of a parameter carries the suffix \<open>_f\<close>, the fields of a
  year of the breakdown that repeat a name of the result carry the prefix \<open>entry_\<close>, and
  those of the Goal-Solver's result the prefix \<open>goal_\<close>. A field that an object does not
  have is \<open>None\<close>. The \<open>category\<close> of a step-up result is a template string that prints a
  number, kept here as \<open>PercentIncrease\<close> of that number.
\<close>

datatype category_label = Label string | PercentIncrease jsnum

datatype jsval = JNum jsnum | JStr string

record year_entry =
  year :: nat
  investment :: jsnum
  entry_value :: jsnum
  entry_returns :: jsnum
  entry_monthlyAmount :: "jsnum option"
  yearlyInvestment :: "jsnum option"

record sip_result =
  type_f :: string
  category_f :: category_label
  totalInvestment :: jsnum
  futureValue :: jsnum
  returns :: jsnum
  inflationAdjustedValue :: jsnum
  realReturns :: jsnum
  effectiveRate :: jsnum
  annualRate :: jsnum
  yearlyBreakdown :: "year_entry list"
  monthlyAmount_f :: "jsnum option"
  initialAmount_f :: "jsnum option"
  stepUpPercent_f :: "jsnum option"
  monthlyAmounts_f :: "jsval list option"
  averageMonthlyAmount :: "jsnum option"
  years_f :: jsnum
  months_f :: jsnum

record goal_result =
  goalAmount_f :: jsnum
  requiredMonthlyAmount :: jsnum
  goal_totalInvestment :: jsnum
  goal_returns :: jsnum
  goal_effectiveRate :: jsnum
  goal_annualRate :: jsnum
  goal_years :: jsnum
  goal_months :: jsnum
  goal_category :: string

section \<open>Shared pieces\<close>

text \<open>
  \<^verbatim>\<open>const returnRates = { large: 0.10, mid: 0.12, small: 0.15 };\<close>
  \<^verbatim>\<open>const annualRate = returnRates[category] || 0.12;\<close>
  Reading a key of the object literal gives the value the literal holds for it, or else
  the member of that name that every object inherits from \<open>Object.prototype\<close> (a function,
  or for \<open>__proto__\<close> the prototype itself), or else \<open>undefined\<close>. \<open>undefined\<close> is falsy, so
  the fallback 0.12 is taken. An inherited member is truthy, so it stays, and where
  \<open>annualRate\<close> is then used as a number (\<open>annualRate / 12\<close>, \<open>annualRate * 100\<close>) it is \<open>NaN\<close>.
  \<open>lookupRate\<close> is \<open>annualRate\<close> read as a number.
\<close>

datatype property = Undefined | Own jsnum | Inherited

definition objectPrototypeKeys :: "string list" where
  "objectPrototypeKeys =
     [''constructor'', ''hasOwnProperty'', ''isPrototypeOf'', ''propertyIsEnumerable'',
      ''toLocaleString'', ''toString'', ''valueOf'', ''__proto__'',
      ''__defineGetter__'', ''__defineSetter__'', ''__lookupGetter__'', ''__lookupSetter__'']"

definition returnRates :: "(string \<times> jsnum) list" where
  "returnRates = [(''large'', Fin 0.10), (''mid'', Fin 0.12), (''small'', Fin 0.15)]"

definition getProperty :: "(string \<times> jsnum) list \<Rightarrow> string \<Rightarrow> property" where
  "getProperty obj key =
     (case map_of obj key of
        Some v \<Rightarrow> Own v
      | None \<Rightarrow> if key \<in> set objectPrototypeKeys then Inherited else Undefined)"

definition lookupRate :: "string \<Rightarrow> jsnum" where
  "lookupRate category =
     (case getProperty returnRates category of
        Undefined \<Rightarrow> Fin 0.12
      | Own v \<Rightarrow> js_or v (Fin 0.12)
      | Inherited \<Rightarrow> NaN)"

text \<open>
  The values of the counter of \<^verbatim>\<open>for (let i = 1; i <= bound; i++)\<close>, for a
  finite bound.
\<close>

definition counter_upto :: "real \<Rightarrow> nat list" where
  "counter_upto bound = [1..<Suc (nat \<lfloor>bound\<rfloor>)]"

text \<open>
  The annuity expression of \<open>calculateRegularSIP\<close>, written twice in the source (for the
  result and for each year of the breakdown):
  \<^verbatim>\<open>monthlyAmount * ((Math.pow(1 + monthlyRate, months) - 1) / monthlyRate) * (1 + monthlyRate)\<close>
\<close>

definition sipFormula :: "jsnum \<Rightarrow> jsnum \<Rightarrow> jsnum \<Rightarrow> jsnum" where
  "sipFormula monthlyAmount monthlyRate months =
     js_mul (js_mul monthlyAmount
               (js_div (js_sub (Math_pow (js_add (Fin 1) monthlyRate) months) (Fin 1)) monthlyRate))
            (js_add (Fin 1) monthlyRate)"

text \<open>\<^verbatim>\<open>category.charAt(0).toUpperCase() + category.slice(1) + ' Cap'\<close>, on ASCII letters.\<close>

definition toUpperCase :: "char \<Rightarrow> char" where
  "toUpperCase c =
     (case map_of (zip ''abcdefghijklmnopqrstuvwxyz'' ''ABCDEFGHIJKLMNOPQRSTUVWXYZ'') c of
        None \<Rightarrow> c
      | Some u \<Rightarrow> u)"

definition capLabel :: "string \<Rightarrow> string" where
  "capLabel category =
     (case category of [] \<Rightarrow> [] | c # cs \<Rightarrow> toUpperCase c # cs) @ '' Cap''"

section \<open>The Fixed-Contribution calculator\<close>

text \<open>
  \<open>calculateRegularSIP(monthlyAmount, years, category, inflationRate)\<close>. The duration is
  a finite number (with \<open>Infinity\<close> the loops of the source would not end).
\<close>

definition regularYear :: "jsnum \<Rightarrow> jsnum \<Rightarrow> nat \<Rightarrow> year_entry" where
  "regularYear monthlyAmount monthlyRate y =
     (let monthsCompleted = js_mul (Fin (real y)) (Fin 12);
          cumulativeInvestment = js_mul monthlyAmount monthsCompleted;
          cumulativeValue = sipFormula monthlyAmount monthlyRate monthsCompleted
      in \<lparr> year = y,
           investment = cumulativeInvestment,
           entry_value = cumulativeValue,
           entry_returns = js_sub cumulativeValue cumulativeInvestment,
           entry_monthlyAmount = None,
           yearlyInvestment = None \<rparr>)"

definition calculateRegularSIP :: "jsnum \<Rightarrow> real \<Rightarrow> string \<Rightarrow> jsnum \<Rightarrow> sip_result" where
  "calculateRegularSIP monthlyAmount years category inflationRate =
     (let months = js_mul (Fin years) (Fin 12);
          annualRate = lookupRate category;
          monthlyRate = js_div annualRate (Fin 12);
          futureValue = sipFormula monthlyAmount monthlyRate months;
          totalInvestment = js_mul monthlyAmount months;
          returns = js_sub futureValue totalInvestment;
          (inflationAdjustedValue, realReturns) =
             inflationAdjust futureValue totalInvestment returns inflationRate (Fin years);
          effectiveRate = calculateEffectiveRate futureValue totalInvestment (Fin years);
          yearlyBreakdown = map (regularYear monthlyAmount monthlyRate) (counter_upto years)
      in \<lparr> type_f = ''Regular SIP'',
           category_f = Label (capLabel category),
           totalInvestment = totalInvestment,
           futureValue = futureValue,
           returns = returns,
           inflationAdjustedValue = inflationAdjustedValue,
           realReturns = realReturns,
           effectiveRate = effectiveRate,
           annualRate = js_mul annualRate (Fin 100),
           yearlyBreakdown = yearlyBreakdown,
           monthlyAmount_f = Some monthlyAmount,
           initialAmount_f = None,
           stepUpPercent_f = None,
           monthlyAmounts_f = None,
           averageMonthlyAmount = None,
           years_f = Fin years,
           months_f = months \<rparr>)"

section \<open>The Goal-Solver\<close>

text \<open>
  \<^verbatim>\<open>
  const factor = ((Math.pow(1 + monthlyRate, months) - 1) / monthlyRate) * (1 + monthlyRate);
  const requiredMonthlyAmount = goalAmount / factor;
  const totalInvestment = requiredMonthlyAmount * months;
  const returns = goalAmount - totalInvestment;
  const effectiveRate = calculateEffectiveRate(goalAmount, totalInvestment, years);
  \<close>
\<close>

definition calculateGoalBasedSIP :: "jsnum \<Rightarrow> real \<Rightarrow> string \<Rightarrow> goal_result" where
  "calculateGoalBasedSIP goalAmount years category =
     (let months = js_mul (Fin years) (Fin 12);
          annualRate = lookupRate category;
          monthlyRate = js_div annualRate (Fin 12);
          factor = js_mul (js_div (js_sub (Math_pow (js_add (Fin 1) monthlyRate) months) (Fin 1))
                                  monthlyRate)
                          (js_add (Fin 1) monthlyRate);
          requiredMonthlyAmount = js_div goalAmount factor;
          totalInvestment = js_mul requiredMonthlyAmount months;
          returns = js_sub goalAmount totalInvestment;
          effectiveRate = calculateEffectiveRate goalAmount totalInvestment (Fin years)
      in \<lparr> goalAmount_f = goalAmount,
           requiredMonthlyAmount = requiredMonthlyAmount,
           goal_totalInvestment = totalInvestment,
           goal_returns = returns,
           goal_effectiveRate = effectiveRate,
           goal_annualRate = js_mul annualRate (Fin 100),
           goal_years = Fin years,
           goal_months = months,
           goal_category = category \<rparr>)"

section \<open>The Escalating-Contribution calculator\<close>

text \<open>
  The body of the month loop of \<open>calculateStepUpSIP\<close>, on the state
  \<open>(totalInvestment, futureValue, currentAmount)\<close>:
  \<^verbatim>\<open>
  const monthsRemaining = months - month + 1;
  futureValue += currentAmount * Math.pow(1 + monthlyRate, monthsRemaining);
  totalInvestment += currentAmount;
  if (month % 12 === 0 && month < months) {
    currentAmount *= (1 + stepUpDecimal);
  }
  \<close>
\<close>

definition stepUpMonth ::
  "jsnum \<Rightarrow> jsnum \<Rightarrow> jsnum \<Rightarrow> nat \<Rightarrow> jsnum \<times> jsnum \<times> jsnum \<Rightarrow> jsnum \<times> jsnum \<times> jsnum" where
  "stepUpMonth months monthlyRate stepUpDecimal month =
     (\<lambda>(totalInvestment, futureValue, currentAmount).
        let monthsRemaining = js_add (js_sub months (Fin (real month))) (Fin 1)
        in (js_add totalInvestment currentAmount,
            js_add futureValue
              (js_mul currentAmount (Math_pow (js_add (Fin 1) monthlyRate) monthsRemaining)),
            if month mod 12 = 0 \<and> js_lt (Fin (real month)) months
            then js_mul currentAmount (js_add (Fin 1) stepUpDecimal)
            else currentAmount))"

text \<open>
  The breakdown loops. Inside a year, on \<open>(cumulativeInvestment, cumulativeValue)\<close>:
  \<^verbatim>\<open>
  const totalMonthsFromStart = (year - 1) * 12 + month;
  if (totalMonthsFromStart <= months) {
    const monthsRemaining = months - totalMonthsFromStart + 1;
    cumulativeValue += yearlyAmount * Math.pow(1 + monthlyRate, monthsRemaining);
    cumulativeInvestment += yearlyAmount;
  }
  \<close>
\<close>

definition stepUpYearMonth ::
  "jsnum \<Rightarrow> jsnum \<Rightarrow> jsnum \<Rightarrow> nat \<Rightarrow> nat \<Rightarrow> jsnum \<times> jsnum \<Rightarrow> jsnum \<times> jsnum" where
  "stepUpYearMonth months monthlyRate yearlyAmount y month =
     (\<lambda>(cumulativeInvestment, cumulativeValue).
        let totalMonthsFromStart = (y - 1) * 12 + month
        in if js_le (Fin (real totalMonthsFromStart)) months then
             (let monthsRemaining =
                    js_add (js_sub months (Fin (real totalMonthsFromStart))) (Fin 1)
              in (js_add cumulativeInvestment yearlyAmount,
                  js_add cumulativeValue
                    (js_mul yearlyAmount (Math_pow (js_add (Fin 1) monthlyRate) monthsRemaining))))
           else (cumulativeInvestment, cumulativeValue))"

text \<open>
  One year of the breakdown, on
  \<open>(cumulativeInvestment, cumulativeValue, yearlyAmount, yearlyBreakdown)\<close>: the twelve
  months, the pushed entry, then
  \<^verbatim>\<open>if (year < years) { yearlyAmount *= (1 + stepUpDecimal); }\<close>
\<close>

definition stepUpYear ::
  "real \<Rightarrow> jsnum \<Rightarrow> jsnum \<Rightarrow> jsnum \<Rightarrow> nat \<Rightarrow>
   jsnum \<times> jsnum \<times> jsnum \<times> year_entry list \<Rightarrow> jsnum \<times> jsnum \<times> jsnum \<times> year_entry list" where
  "stepUpYear years months monthlyRate stepUpDecimal y =
     (\<lambda>(cumulativeInvestment0, cumulativeValue0, yearlyAmount, yearlyBreakdown).
        let (cumulativeInvestment, cumulativeValue) =
              fold (stepUpYearMonth months monthlyRate yearlyAmount y) [1..<13]
                (cumulativeInvestment0, cumulativeValue0)
        in (cumulativeInvestment, cumulativeValue,
            if real y < years then js_mul yearlyAmount (js_add (Fin 1) stepUpDecimal)
            else yearlyAmount,
            yearlyBreakdown @
              [\<lparr> year = y,
                 investment = cumulativeInvestment,
                 entry_value = cumulativeValue,
                 entry_returns = js_sub cumulativeValue cumulativeInvestment,
                 entry_monthlyAmount = Some yearlyAmount,
                 yearlyInvestment = None \<rparr>]))"

definition calculateStepUpSIP :: "jsnum \<Rightarrow> real \<Rightarrow> jsnum \<Rightarrow> jsnum \<Rightarrow> sip_result" where
  "calculateStepUpSIP initialAmount years stepUpPercent inflationRate =
     (let months = js_mul (Fin years) (Fin 12);
          annualRate = Fin 0.15;
          monthlyRate = js_div annualRate (Fin 12);
          stepUpDecimal = js_div stepUpPercent (Fin 100);
          (totalInvestment, futureValue, currentAmount) =
             fold (stepUpMonth months monthlyRate stepUpDecimal) (counter_upto (years * 12))
               (Fin 0, Fin 0, initialAmount);
          returns = js_sub futureValue totalInvestment;
          (inflationAdjustedValue, realReturns) =
             inflationAdjust futureValue totalInvestment returns inflationRate (Fin years);
          effectiveRate = calculateEffectiveRate futureValue totalInvestment (Fin years);
          (cumulativeInvestment, cumulativeValue, yearlyAmount, yearlyBreakdown) =
             fold (stepUpYear years months monthlyRate stepUpDecimal) (counter_upto years)
               (Fin 0, Fin 0, initialAmount, [])
      in \<lparr> type_f = ''Step-up SIP'',
           category_f = PercentIncrease stepUpPercent,
           totalInvestment = totalInvestment,
           futureValue = futureValue,
           returns = returns,
           inflationAdjustedValue = inflationAdjustedValue,
           realReturns = realReturns,
           effectiveRate = effectiveRate,
           annualRate = js_mul annualRate (Fin 100),
           yearlyBreakdown = yearlyBreakdown,
           monthlyAmount_f = None,
           initialAmount_f = Some initialAmount,
           stepUpPercent_f = Some stepUpPercent,
           monthlyAmounts_f = None,
           averageMonthlyAmount = None,
           years_f = Fin years,
           months_f = months \<rparr>)"

section \<open>The Freeform-Contribution calculator\<close>

text \<open>
  The entries of the list are numbers (the Comparator fills it with one) or the texts of
  the form's input fields. \<open>parseFloat\<close> reads a number as itself and a text by its
  longest prefix that is a decimal literal, after leading white space; a text with no
  such prefix gives \<open>NaN\<close>. Texts are ASCII here.
\<close>

definition is_whitespace :: "char \<Rightarrow> bool" where
  "is_whitespace c =
     (c = CHR '' '' \<or> c = CHR 0x09 \<or> c = CHR 0x0A \<or> c = CHR 0x0B \<or> c = CHR 0x0C \<or> c = CHR 0x0D)"

definition digit_of :: "char \<Rightarrow> nat option" where
  "digit_of c = map_of (zip ''0123456789'' [0, 1, 2, 3, 4, 5, 6, 7, 8, 9]) c"

fun read_digits :: "string \<Rightarrow> nat list \<times> string" where
  "read_digits [] = ([], [])"
| "read_digits (c # cs) =
     (case digit_of c of
        None \<Rightarrow> ([], c # cs)
      | Some d \<Rightarrow> (let (ds, rest) = read_digits cs in (d # ds, rest)))"

definition decimal :: "nat list \<Rightarrow> nat" where
  "decimal ds = foldl (\<lambda>acc d. 10 * acc + d) 0 ds"

definition parse_exponent :: "string \<Rightarrow> int" where
  "parse_exponent s =
     (case s of
        [] \<Rightarrow> 0
      | c # cs \<Rightarrow>
          if c = CHR ''e'' \<or> c = CHR ''E'' then
            (let (negative, cs') =
                   (case cs of
                      [] \<Rightarrow> (False, [])
                    | g # t \<Rightarrow> if g = CHR ''-'' then (True, t)
                               else if g = CHR ''+'' then (False, t) else (False, cs));
                 (ds, rest) = read_digits cs'
             in if negative then - int (decimal ds) else int (decimal ds))
          else 0)"

definition parse_unsigned :: "string \<Rightarrow> jsnum" where
  "parse_unsigned s =
     (if take 8 s = ''Infinity'' then PInf
      else
        let (ip, rest) = read_digits s;
            (fp, rest') =
              (case rest of
                 [] \<Rightarrow> ([], [])
               | c # cs \<Rightarrow> if c = CHR ''.'' then read_digits cs else ([], rest))
        in if ip = [] \<and> fp = [] then NaN
           else
             let m = real (decimal ip) + real (decimal fp) / 10 ^ length fp;
                 e = parse_exponent rest'
             in Fin (if 0 \<le> e then m * 10 ^ nat e else m / 10 ^ nat (- e)))"

definition parseFloat :: "jsval \<Rightarrow> jsnum" where
  "parseFloat v =
     (case v of
        JNum x \<Rightarrow> x
      | JStr s \<Rightarrow>
          (case dropWhile is_whitespace s of
             [] \<Rightarrow> NaN
           | c # cs \<Rightarrow>
               if c = CHR ''-'' then js_neg (parse_unsigned cs)
               else if c = CHR ''+'' then parse_unsigned cs
               else parse_unsigned (c # cs)))"

text \<open>\<^verbatim>\<open>const monthlyAmount = parseFloat(amount) || 0;\<close>\<close>

definition entryAmount :: "jsval \<Rightarrow> jsnum" where
  "entryAmount amount = js_or (parseFloat amount) (Fin 0)"

text \<open>
  The callback of \<open>monthlyAmounts.forEach((amount, index) => ...)\<close>, on
  \<open>(totalInvestment, futureValue)\<close>, where \<open>amount\<close> is \<open>monthlyAmounts[index]\<close> and the
  indices run from 0 below the length:
  \<^verbatim>\<open>
  const monthlyAmount = parseFloat(amount) || 0;
  const monthsRemaining = months - index;
  if (monthlyAmount > 0) {
    futureValue += monthlyAmount * Math.pow(1 + monthlyRate, monthsRemaining);
    totalInvestment += monthlyAmount;
  }
  \<close>
\<close>

definition flexibleMonth ::
  "jsnum \<Rightarrow> jsnum \<Rightarrow> jsval list \<Rightarrow> nat \<Rightarrow> jsnum \<times> jsnum \<Rightarrow> jsnum \<times> jsnum" where
  "flexibleMonth months monthlyRate monthlyAmounts index =
     (\<lambda>(totalInvestment, futureValue).
        let monthlyAmount = entryAmount (monthlyAmounts ! index);
            monthsRemaining = js_sub months (Fin (real index))
        in if js_gt monthlyAmount (Fin 0) then
             (js_add totalInvestment monthlyAmount,
              js_add futureValue
                (js_mul monthlyAmount (Math_pow (js_add (Fin 1) monthlyRate) monthsRemaining)))
           else (totalInvestment, futureValue))"

text \<open>
  The month loop of the breakdown, on
  \<open>(cumulativeInvestment, cumulativeValue, yearlyInvestment)\<close>; it reads
  \<open>monthlyAmounts[month]\<close> only below the length of the list.
\<close>

definition flexibleYearMonth ::
  "jsnum \<Rightarrow> jsnum \<Rightarrow> jsval list \<Rightarrow> nat \<Rightarrow> jsnum \<times> jsnum \<times> jsnum \<Rightarrow> jsnum \<times> jsnum \<times> jsnum" where
  "flexibleYearMonth months monthlyRate monthlyAmounts month =
     (\<lambda>(cumulativeInvestment, cumulativeValue, yearlyInvestment).
        let monthlyAmount = entryAmount (monthlyAmounts ! month);
            monthsRemaining = js_sub months (Fin (real month))
        in if js_gt monthlyAmount (Fin 0) then
             (js_add cumulativeInvestment monthlyAmount,
              js_add cumulativeValue
                (js_mul monthlyAmount (Math_pow (js_add (Fin 1) monthlyRate) monthsRemaining)),
              js_add yearlyInvestment monthlyAmount)
           else (cumulativeInvestment, cumulativeValue, yearlyInvestment))"

text \<open>
  One year of the breakdown, on \<open>(cumulativeInvestment, cumulativeValue, yearlyBreakdown)\<close>:
  \<^verbatim>\<open>
  const startMonth = (year - 1) * 12;
  const endMonth = Math.min(year * 12, months);
  let yearlyInvestment = 0;
  for (let month = startMonth; month < endMonth; month++) { ... }
  yearlyBreakdown.push({ year, investment: cumulativeInvestment, value: cumulativeValue,
    returns: cumulativeValue - cumulativeInvestment, yearlyInvestment });
  \<close>
\<close>

definition flexibleYear ::
  "nat \<Rightarrow> jsnum \<Rightarrow> jsval list \<Rightarrow> nat \<Rightarrow>
   jsnum \<times> jsnum \<times> year_entry list \<Rightarrow> jsnum \<times> jsnum \<times> year_entry list" where
  "flexibleYear n monthlyRate monthlyAmounts y =
     (\<lambda>(cumulativeInvestment0, cumulativeValue0, yearlyBreakdown).
        let startMonth = (y - 1) * 12;
            endMonth = min (y * 12) n;
            (cumulativeInvestment, cumulativeValue, yearlyInvestment) =
              fold (flexibleYearMonth (Fin (real n)) monthlyRate monthlyAmounts)
                [startMonth..<endMonth] (cumulativeInvestment0, cumulativeValue0, Fin 0)
        in (cumulativeInvestment, cumulativeValue,
            yearlyBreakdown @
              [\<lparr> year = y,
                 investment = cumulativeInvestment,
                 entry_value = cumulativeValue,
                 entry_returns = js_sub cumulativeValue cumulativeInvestment,
                 entry_monthlyAmount = None,
                 yearlyInvestment = Some yearlyInvestment \<rparr>]))"

text \<open>
  \<open>calculateFlexibleSIP(monthlyAmounts, inflationRate)\<close>. \<open>months\<close> is the length of the
  list and \<open>years = months / 12\<close>; the breakdown runs over \<open>Math.ceil(years)\<close> years; the
  average is \<open>totalInvestment / months\<close>.
\<close>

definition calculateFlexibleSIP :: "jsval list \<Rightarrow> jsnum \<Rightarrow> sip_result" where
  "calculateFlexibleSIP monthlyAmounts inflationRate =
     (let n = length monthlyAmounts;
          months = Fin (real n);
          years = real n / 12;
          annualRate = Fin 0.12;
          monthlyRate = js_div annualRate (Fin 12);
          (totalInvestment, futureValue) =
             fold (flexibleMonth months monthlyRate monthlyAmounts) [0..<n] (Fin 0, Fin 0);
          returns = js_sub futureValue totalInvestment;
          (inflationAdjustedValue, realReturns) =
             inflationAdjust futureValue totalInvestment returns inflationRate (Fin years);
          effectiveRate = calculateEffectiveRate futureValue totalInvestment (Fin years);
          (cumulativeInvestment, cumulativeValue, yearlyBreakdown) =
             fold (flexibleYear n monthlyRate monthlyAmounts)
               (counter_upto (of_int \<lceil>years\<rceil>)) (Fin 0, Fin 0, []);
          averageMonthlyAmount = js_div totalInvestment months
      in \<lparr> type_f = ''Flexible SIP'',
           category_f = Label ''Custom amounts'',
           totalInvestment = totalInvestment,
           futureValue = futureValue,
           returns = returns,
           inflationAdjustedValue = inflationAdjustedValue,
           realReturns = realReturns,
           effectiveRate = effectiveRate,
           annualRate = js_mul annualRate (Fin 100),
           yearlyBreakdown = yearlyBreakdown,
           monthlyAmount_f = None,
           initialAmount_f = None,
           stepUpPercent_f = None,
           monthlyAmounts_f = Some monthlyAmounts,
           averageMonthlyAmount = Some averageMonthlyAmount,
           years_f = Fin years,
           months_f = months \<rparr>)"

section \<open>The Comparator\<close>

text \<open>
  \<^verbatim>\<open>
  const { monthlyAmount, years, stepUpPercent = 10, inflationRate = 0 } = baseParams;
  const results = [];
  ['large', 'mid', 'small'].forEach(category => {
    results.push(calculateRegularSIP(monthlyAmount, years, category, inflationRate));
  });
  results.push(calculateStepUpSIP(monthlyAmount, years, stepUpPercent, inflationRate));
  const flexibleAmounts = Array(years * 12).fill(monthlyAmount);
  results.push(calculateFlexibleSIP(flexibleAmounts, inflationRate));
  return results;
  \<close>
  A default applies to a field that is absent. \<open>Array(len)\<close> throws a \<open>RangeError\<close> unless
  \<open>len\<close> is a whole number from 0 to \<open>2^32 - 1\<close>.
\<close>

datatype js_error = RangeError

record base_params =
  base_monthlyAmount :: jsnum
  base_years :: real
  base_stepUpPercent :: "jsnum option"
  base_inflationRate :: "jsnum option"

definition valid_array_length :: "real \<Rightarrow> bool" where
  "valid_array_length len = (is_integer len \<and> 0 \<le> len \<and> len < 2 ^ 32)"

definition compareAllSIPTypes :: "base_params \<Rightarrow> js_error + sip_result list" where
  "compareAllSIPTypes baseParams =
     (let monthlyAmount = base_monthlyAmount baseParams;
          years = base_years baseParams;
          stepUpPercent = (case base_stepUpPercent baseParams of None \<Rightarrow> Fin 10 | Some v \<Rightarrow> v);
          inflationRate = (case base_inflationRate baseParams of None \<Rightarrow> Fin 0 | Some v \<Rightarrow> v);
          results = map (\<lambda>category. calculateRegularSIP monthlyAmount years category inflationRate)
                      [''large'', ''mid'', ''small''];
          stepUpResult = calculateStepUpSIP monthlyAmount years stepUpPercent inflationRate
      in if valid_array_length (years * 12) then
           (let flexibleAmounts = replicate (nat \<lfloor>years * 12\<rfloor>) (JNum monthlyAmount);
                flexibleResult = calculateFlexibleSIP flexibleAmounts inflationRate
            in Inr (results @ [stepUpResult] @ [flexibleResult]))
         else Inl RangeError)"

section \<open>What an entry of a freeform list contributes\<close>

text \<open>
  The real value of a finite number, and the contribution of an entry in the words of
  the specification: only an amount strictly greater than 0 counts, any other entry
  counts as zero.
\<close>

definition real_of :: "jsnum \<Rightarrow> real" where
  "real_of x = (case x of Fin a \<Rightarrow> a | _ \<Rightarrow> 0)"

definition spec_contribution :: "jsval \<Rightarrow> real" where
  "spec_contribution amount =
     (if js_gt (entryAmount amount) (Fin 0) then real_of (entryAmount amount) else 0)"

section \<open>The specification's rate table and closed form\<close>

text \<open>
  These two definitions follow the words of the specification, to be compared with the
  code: the Rate Table (LargeCap 0.10, MidCap 0.12, SmallCap 0.15, anything else the
  rate of MidCap) and the annuity-due value \<open>A * ((1+r)^n - 1)/r * (1+r)\<close>.
\<close>

definition spec_rateFor :: "string \<Rightarrow> real" where
  "spec_rateFor category =
     (if category = ''large'' then 0.10 else if category = ''small'' then 0.15 else 0.12)"

definition spec_finalValue :: "real \<Rightarrow> real \<Rightarrow> nat \<Rightarrow> real" where
  "spec_finalValue A r n = A * ((1 + r) ^ n - 1) / r * (1 + r)"

section \<open>Helper facts on the numbers\<close>

lemma js_sub_Fin [simp]: "js_sub (Fin a) (Fin b) = Fin (a - b)"
  by (simp add: js_sub_def)

lemma js_le_Fin [simp]: "js_le (Fin a) (Fin b) = (a \<le> b)"
  by (auto simp: js_le_def)

lemma js_gt_Fin [simp]: "js_gt (Fin a) (Fin b) = (b < a)"
  by (simp add: js_gt_def)

lemma Math_pow_zero [simp]: "Math_pow b (Fin 0) = Fin 1"
  by simp

lemma Math_pow_nat: "Math_pow (Fin a) (Fin (real n)) = Fin (a ^ n)"
  by (cases "n = 0") (auto simp: is_integer_def)

lemma is_integer_nat_floor:
  assumes "is_integer e" "0 \<le> e"
  shows "real (nat \<lfloor>e\<rfloor>) = e"
proof -
  from assms(1) have "of_int \<lfloor>e\<rfloor> = e"
    unfolding is_integer_def .
  moreover from assms(2) have "0 \<le> \<lfloor>e\<rfloor>"
    by simp
  ultimately show ?thesis
    by (metis of_nat_nat)
qed

lemma is_integer_uminus: "is_integer e \<Longrightarrow> is_integer (- e)"
  unfolding is_integer_def by (metis floor_of_int of_int_minus)

lemma Math_pow_powr:
  assumes a: "0 < a"
  shows "Math_pow (Fin a) (Fin e) = Fin (a powr e)"
proof (cases "is_integer e")
  case False
  with a show ?thesis by simp
next
  case int: True
  show ?thesis
  proof (cases "0 \<le> e")
    case True
    have "a powr real (nat \<lfloor>e\<rfloor>) = a ^ nat \<lfloor>e\<rfloor>"
      using a by (rule powr_realpow)
    then have "a powr e = a ^ nat \<lfloor>e\<rfloor>"
      using is_integer_nat_floor[OF int True] by simp
    with a int True show ?thesis by auto
  next
    case False
    then have neg: "0 \<le> - e" by simp
    have "a powr real (nat \<lfloor>- e\<rfloor>) = a ^ nat \<lfloor>- e\<rfloor>"
      using a by (rule powr_realpow)
    then have "a powr (- e) = a ^ nat \<lfloor>- e\<rfloor>"
      using is_integer_nat_floor[OF is_integer_uminus[OF int] neg] by simp
    moreover have "a powr e = 1 / a powr (- e)"
      by (simp add: powr_minus_divide)
    ultimately show ?thesis
      using a int False by auto
  qed
qed

declare Math_pow.simps [simp del]

section \<open>The rate table\<close>

lemma lookupRate_own:
  "lookupRate ''large'' = Fin 0.10"
  "lookupRate ''mid'' = Fin 0.12"
  "lookupRate ''small'' = Fin 0.15"
  by (simp_all add: lookupRate_def getProperty_def returnRates_def js_or_def)

lemma lookupRate_inherited:
  "category \<in> set objectPrototypeKeys \<Longrightarrow> lookupRate category = NaN"
  by (auto simp: lookupRate_def getProperty_def returnRates_def objectPrototypeKeys_def)

lemma lookupRate_eq:
  "category \<notin> set objectPrototypeKeys \<Longrightarrow> lookupRate category = Fin (spec_rateFor category)"
  by (simp add: lookupRate_def getProperty_def returnRates_def spec_rateFor_def js_or_def)

lemma spec_rateFor_pos: "0 < spec_rateFor c"
  by (simp add: spec_rateFor_def)

lemma lookupRate_Fin:
  assumes "lookupRate category = Fin a"
  shows "a = spec_rateFor category" and "0 < a"
proof -
  have "category \<notin> set objectPrototypeKeys"
    using assms lookupRate_inherited by fastforce
  then show "a = spec_rateFor category"
    using assms by (simp add: lookupRate_eq)
  then show "0 < a"
    by (simp add: spec_rateFor_pos)
qed


section \<open>The closed form of the Fixed-Contribution calculator\<close>

lemma sipFormula_nat:
  "r \<noteq> 0 \<Longrightarrow>
   sipFormula (Fin A) (Fin r) (Fin (real n)) = Fin (A * (((1 + r) ^ n - 1) / r) * (1 + r))"
  by (simp add: sipFormula_def Math_pow_nat)

lemma regular_futureValue:
  assumes "years * 12 = real n" and "lookupRate c = Fin a"
  shows "futureValue (calculateRegularSIP (Fin A) years c i) =
         Fin (spec_finalValue A (a / 12) n)"
  using lookupRate_Fin(2)[OF assms(2)] assms
  by (simp add: calculateRegularSIP_def Let_def sipFormula_nat
      spec_finalValue_def split: prod.splits)

lemma regular_totalInvestment:
  "totalInvestment (calculateRegularSIP (Fin A) years c i) = Fin (A * (years * 12))"
  by (simp add: calculateRegularSIP_def Let_def split: prod.splits)

lemma pow_101_120: "(101 / 100 :: real) ^ 120 = 101 ^ 120 / 100 ^ 120"
  by (simp only: power_divide)

lemma scenario_value_bounds:
  "2323390 < spec_finalValue 10000 (1 / 100) 120 \<and> spec_finalValue 10000 (1 / 100) 120 < 2323391"
  by (simp add: spec_finalValue_def pow_101_120)

lemma scenario_futureValue:
  "futureValue (calculateRegularSIP (Fin 10000) 10 ''mid'' i) =
     Fin (spec_finalValue 10000 (1 / 100) 120)"
  using regular_futureValue[of 10 120 "''mid''" "12 / 100" 10000 i]
  by (simp add: lookupRate_own)

lemma annuity_ge:
  assumes "0 < r"
  shows "real n \<le> ((1 + r) ^ n - 1) / r"
proof -
  have "1 + real n * r \<le> (1 + r) ^ n"
    using assms by (intro Bernoulli_inequality) simp
  then have "real n * r \<le> (1 + r) ^ n - 1" by simp
  then show ?thesis using assms by (simp add: pos_le_divide_eq)
qed

lemma spec_finalValue_ge:
  assumes "0 < r" "0 \<le> A"
  shows "A * real n \<le> spec_finalValue A r n"
proof -
  define X where "X = ((1 + r) ^ n - 1) / r"
  have X: "real n \<le> X"
    unfolding X_def using assms(1) by (rule annuity_ge)
  have le: "A * real n \<le> A * X"
    using X assms(2) by (rule mult_left_mono)
  have "0 \<le> A * X"
    using X assms(2) by (intro mult_nonneg_nonneg) simp_all
  then have "A * X * 1 \<le> A * X * (1 + r)"
    using assms(1) by (intro mult_left_mono) simp_all
  with le have "A * real n \<le> A * X * (1 + r)" by simp
  then show ?thesis by (simp add: spec_finalValue_def X_def)
qed

lemma spec_finalValue_gt:
  assumes "0 < r" "0 < A" "0 < n"
  shows "A * real n < spec_finalValue A r n"
proof -
  define X where "X = ((1 + r) ^ n - 1) / r"
  have X: "real n \<le> X"
    unfolding X_def using assms(1) by (rule annuity_ge)
  have le: "A * real n \<le> A * X"
    using X assms(2) by (intro mult_left_mono) simp_all
  have "0 < A * X"
    using X assms(2,3) by (intro mult_pos_pos) simp_all
  then have "A * X * 1 < A * X * (1 + r)"
    using assms(1) by (intro mult_strict_left_mono) simp_all
  with le have "A * real n < A * X * (1 + r)" by simp
  then show ?thesis by (simp add: spec_finalValue_def X_def)
qed

text \<open>
  C1 (as amended). For a per-period amount \<open>A > 0\<close>, a period count \<open>n = years * 12\<close> that is
  a positive whole number and a periodic rate \<open>r = annualRate / 12\<close> with \<open>r > 0\<close>, the
  Fixed-Contribution result has \<open>finalValue = A * ((1+r)^n - 1)/r * (1+r)\<close> and
  \<open>totalContributed = A * n\<close>. For 10000 a month over 10 years in MidCap (annual rate
  0.12), \<open>totalContributed\<close> is 1,200,000 and \<open>finalValue\<close> is
  \<open>10000 * ((1.01^120 - 1)/0.01) * 1.01\<close>, which lies between 2,323,390 and 2,323,391.
\<close>

theorem C1_fixed_closed_form:
  assumes "0 < A" and "0 < n" and "years * 12 = real n"
    and "lookupRate category = Fin annualRate0" and "r = annualRate0 / 12" and "0 < r"
  shows "futureValue (calculateRegularSIP (Fin A) years category inflationRate) =
           Fin (A * ((1 + r) ^ n - 1) / r * (1 + r))
       \<and> totalInvestment (calculateRegularSIP (Fin A) years category inflationRate) =
           Fin (A * real n)
       \<and> lookupRate ''mid'' = Fin 0.12
       \<and> totalInvestment (calculateRegularSIP (Fin 10000) 10 ''mid'' inflationRate) =
           Fin 1200000
       \<and> futureValue (calculateRegularSIP (Fin 10000) 10 ''mid'' inflationRate) =
           Fin (10000 * ((1.01 ^ 120 - 1) / 0.01) * 1.01)
       \<and> js_lt (Fin 2323390) (futureValue (calculateRegularSIP (Fin 10000) 10 ''mid'' inflationRate))
       \<and> js_lt (futureValue (calculateRegularSIP (Fin 10000) 10 ''mid'' inflationRate)) (Fin 2323391)"
proof -
  have fv: "futureValue (calculateRegularSIP (Fin A) years category inflationRate) =
      Fin (A * ((1 + r) ^ n - 1) / r * (1 + r))"
    unfolding assms(5)
    using regular_futureValue[OF assms(3,4), of A inflationRate]
    by (simp add: spec_finalValue_def)
  have ti: "totalInvestment (calculateRegularSIP (Fin A) years category inflationRate) =
      Fin (A * real n)"
    using assms(3) by (simp add: regular_totalInvestment)
  have mid: "lookupRate ''mid'' = Fin 0.12"
    by (rule lookupRate_own)
  have ti0: "totalInvestment (calculateRegularSIP (Fin 10000) 10 ''mid'' inflationRate) =
      Fin 1200000"
    by (simp add: regular_totalInvestment)
  have fv0: "futureValue (calculateRegularSIP (Fin 10000) 10 ''mid'' inflationRate) =
      Fin (spec_finalValue 10000 (1 / 100) 120)"
    by (rule scenario_futureValue)
  have same: "spec_finalValue 10000 (1 / 100) 120 = 10000 * ((1.01 ^ 120 - 1) / 0.01) * 1.01"
    by (simp add: spec_finalValue_def)
  have fv1: "futureValue (calculateRegularSIP (Fin 10000) 10 ''mid'' inflationRate) =
      Fin (10000 * ((1.01 ^ 120 - 1) / 0.01) * 1.01)"
    using fv0 unfolding same .
  have lo: "js_lt (Fin 2323390)
      (futureValue (calculateRegularSIP (Fin 10000) 10 ''mid'' inflationRate))"
    using scenario_value_bounds by (simp add: fv0)
  have hi: "js_lt (futureValue (calculateRegularSIP (Fin 10000) 10 ''mid'' inflationRate))
      (Fin 2323391)"
    using scenario_value_bounds by (simp add: fv0)
  show ?thesis
    using fv ti mid ti0 fv1 lo hi by (intro conjI)
qed

theorem C1_fixed_closed_form_witness:
  "(0::real) < 500 \<and> (0::nat) < 12 \<and> (1::real) * 12 = real 12
   \<and> lookupRate ''large'' = Fin (1 / 10) \<and> (1 / 120 :: real) = (1 / 10) / 12
   \<and> (0::real) < 1 / 120
   \<and> futureValue (calculateRegularSIP (Fin 500) 1 ''large'' (Fin 0)) =
       Fin (500 * ((1 + 1 / 120) ^ 12 - 1) / (1 / 120) * (1 + 1 / 120))
   \<and> totalInvestment (calculateRegularSIP (Fin 500) 1 ''large'' (Fin 0)) = Fin (500 * real 12)"
proof -
  have l: "lookupRate ''large'' = Fin (1 / 10)"
    using lookupRate_own(1) by simp
  have h: "(1 / 120 :: real) = (1 / 10) / 12"
    by simp
  show ?thesis
    using l C1_fixed_closed_form[of 500 12 1 "''large''" "1 / 10" "1 / 120" "Fin 0", OF _ _ _ l h]
    by simp
qed

text \<open>
  The value of the 10-year MidCap scenario is not within 1 of 2,319,007: it is more than
  4,000 above.
\<close>

theorem C1_scenario_counterexample:
  "\<not> (js_le (Fin (2319007 - 1)) (futureValue (calculateRegularSIP (Fin 10000) 10 ''mid'' (Fin 0)))
      \<and> js_le (futureValue (calculateRegularSIP (Fin 10000) 10 ''mid'' (Fin 0))) (Fin (2319007 + 1)))"
  using scenario_value_bounds by (simp add: scenario_futureValue)

section \<open>The Goal-Solver and the Fixed-Contribution calculator\<close>

lemma goal_required:
  assumes "years * 12 = real n" and "0 < n" and "lookupRate c = Fin a"
  shows "requiredMonthlyAmount (calculateGoalBasedSIP (Fin T) years c) =
         Fin (T / spec_finalValue 1 (a / 12) n)"
proof -
  have a: "0 < a"
    using assms(3) by (rule lookupRate_Fin)
  then have "1 < (1 + a / 12) ^ n"
    using assms(2) by (intro one_less_power) simp_all
  then show ?thesis
    using a assms(1,3)
    by (simp add: calculateGoalBasedSIP_def Let_def Math_pow_nat spec_finalValue_def)
qed





text \<open>
  C8 (as amended). The Goal-Solver has no guard for degenerate input. Its rate, when it
  is a number, is one of the positive rates of the table, never zero or negative. With a
  period count that is a positive whole number the annuity factor
  \<open>((1+r)^n - 1)/r * (1+r)\<close> is positive and the result is the finite amount
  \<open>target / factor\<close>. With zero periods the factor is zero and the division is made all the
  same: for a positive target the required amount is \<open>Infinity\<close>, the total contribution
  and the growth are \<open>NaN\<close>, and the effective rate is the 0 of the estimator's own guard.
\<close>

theorem C8_goal_solver_unguarded:
  assumes "lookupRate category = Fin annualRate0" and "r = annualRate0 / 12"
  shows "0 < r
       \<and> (0 < n \<and> years * 12 = real n \<longrightarrow>
            0 < ((1 + r) ^ n - 1) / r * (1 + r)
          \<and> requiredMonthlyAmount (calculateGoalBasedSIP (Fin T) years category) =
              Fin (T / (((1 + r) ^ n - 1) / r * (1 + r))))
       \<and> (0 < T \<longrightarrow>
            requiredMonthlyAmount (calculateGoalBasedSIP (Fin T) 0 category) = PInf
          \<and> goal_totalInvestment (calculateGoalBasedSIP (Fin T) 0 category) = NaN
          \<and> goal_returns (calculateGoalBasedSIP (Fin T) 0 category) = NaN
          \<and> goal_effectiveRate (calculateGoalBasedSIP (Fin T) 0 category) = Fin 0)"
proof -
  have a: "0 < annualRate0"
    using assms(1) by (rule lookupRate_Fin)
  then have r: "0 < r"
    using assms(2) by simp
  have factor: "((1 + r) ^ n - 1) / r * (1 + r) = spec_finalValue 1 r n" for n
    by (simp add: spec_finalValue_def)
  have whole: "0 < n \<and> years * 12 = real n \<longrightarrow>
            0 < ((1 + r) ^ n - 1) / r * (1 + r)
          \<and> requiredMonthlyAmount (calculateGoalBasedSIP (Fin T) years category) =
              Fin (T / (((1 + r) ^ n - 1) / r * (1 + r)))"
  proof (intro impI conjI)
    assume h: "0 < n \<and> years * 12 = real n"
    show "0 < ((1 + r) ^ n - 1) / r * (1 + r)"
      unfolding factor using spec_finalValue_gt[OF r, of 1 n] h by simp
    have g: "requiredMonthlyAmount (calculateGoalBasedSIP (Fin T) years category) =
              Fin (T / spec_finalValue 1 r n)"
      unfolding assms(2) using h assms(1) by (simp add: goal_required)
    show "requiredMonthlyAmount (calculateGoalBasedSIP (Fin T) years category) =
              Fin (T / (((1 + r) ^ n - 1) / r * (1 + r)))"
      unfolding factor by (rule g)
  qed
  have zero: "0 < T \<longrightarrow>
            requiredMonthlyAmount (calculateGoalBasedSIP (Fin T) 0 category) = PInf
          \<and> goal_totalInvestment (calculateGoalBasedSIP (Fin T) 0 category) = NaN
          \<and> goal_returns (calculateGoalBasedSIP (Fin T) 0 category) = NaN
          \<and> goal_effectiveRate (calculateGoalBasedSIP (Fin T) 0 category) = Fin 0"
    using a
    by (simp add: calculateGoalBasedSIP_def Let_def assms(1) inf_times_def js_sub_def
        calculateEffectiveRate_def)
  show ?thesis
    using r whole zero by (intro conjI)
qed

theorem C8_goal_solver_unguarded_witness:
  "lookupRate ''mid'' = Fin (12 / 100) \<and> (1 / 100 :: real) = (12 / 100) / 12
   \<and> (0::nat) < 1 \<and> (1 / 12 :: real) * 12 = real 1
   \<and> requiredMonthlyAmount (calculateGoalBasedSIP (Fin 1010) (1 / 12) ''mid'') = Fin 1000
   \<and> (0::real) < 1010
   \<and> requiredMonthlyAmount (calculateGoalBasedSIP (Fin 1010) 0 ''mid'') = PInf"
proof -
  have l: "lookupRate ''mid'' = Fin (12 / 100)"
    using lookupRate_own(2) by simp
  have h: "(1 / 100 :: real) = (12 / 100) / 12"
    by simp
  show ?thesis
    using l C8_goal_solver_unguarded[OF l h, where n = 1 and years = "1 / 12" and T = 1010]
    by simp
qed

text \<open>
  At a target of 100000 over zero years in MidCap the Goal-Solver does not report zero or
  another finite value: the required amount is \<open>Infinity\<close>, the total and the growth \<open>NaN\<close>.
\<close>

theorem C8_goal_zero_periods_counterexample:
  "requiredMonthlyAmount (calculateGoalBasedSIP (Fin 100000) 0 ''mid'') = PInf
   \<and> goal_totalInvestment (calculateGoalBasedSIP (Fin 100000) 0 ''mid'') = NaN
   \<and> goal_returns (calculateGoalBasedSIP (Fin 100000) 0 ''mid'') = NaN"
  by (simp add: calculateGoalBasedSIP_def Let_def lookupRate_own
      inf_times_def js_sub_def)

text \<open>
  C9. For a Fixed-Contribution input with amount \<open>A \<ge> 0\<close>, a whole period count and an
  assumed annual rate that is a number \<open>\<ge> 0\<close>, \<open>totalContributed \<ge> 0\<close> and
  \<open>finalValue \<ge> totalContributed\<close>; with \<open>A > 0\<close>, at least one period and a rate \<open>> 0\<close>,
  \<open>finalValue > totalContributed\<close>.
\<close>

theorem C9_fixed_growth:
  assumes "0 \<le> A" and "years * 12 = real n"
    and "lookupRate category = Fin annualRate0" and "0 \<le> annualRate0"
  shows "js_le (Fin 0) (totalInvestment (calculateRegularSIP (Fin A) years category inflationRate))
       \<and> js_le (totalInvestment (calculateRegularSIP (Fin A) years category inflationRate))
               (futureValue (calculateRegularSIP (Fin A) years category inflationRate))
       \<and> (0 < A \<and> 0 < n \<and> 0 < annualRate0 \<longrightarrow>
            js_lt (totalInvestment (calculateRegularSIP (Fin A) years category inflationRate))
                  (futureValue (calculateRegularSIP (Fin A) years category inflationRate)))"
proof -
  have r: "0 < annualRate0 / 12"
    using lookupRate_Fin(2)[OF assms(3)] by simp
  have ge: "A * real n \<le> spec_finalValue A (annualRate0 / 12) n"
    using r assms(1) by (rule spec_finalValue_ge)
  have gt: "A * real n < spec_finalValue A (annualRate0 / 12) n" if "0 < A" "0 < n"
    using r that by (rule spec_finalValue_gt)
  have "0 \<le> A * real n"
    using assms(1) by simp
  with ge gt show ?thesis
    using assms(2)
    by (simp add: regular_futureValue[OF assms(2,3)] regular_totalInvestment)
qed

theorem C9_fixed_growth_witness:
  "(0::real) \<le> 2000 \<and> (2::real) * 12 = real 24
   \<and> lookupRate ''small'' = Fin (15 / 100) \<and> (0::real) \<le> 15 / 100
   \<and> (0::real) < 2000 \<and> (0::nat) < 24 \<and> (0::real) < 15 / 100
   \<and> js_lt (totalInvestment (calculateRegularSIP (Fin 2000) 2 ''small'' (Fin 0)))
            (futureValue (calculateRegularSIP (Fin 2000) 2 ''small'' (Fin 0)))"
proof -
  have l: "lookupRate ''small'' = Fin (15 / 100)"
    using lookupRate_own(3) by simp
  show ?thesis
    using l C9_fixed_growth[of 2000 2 24 "''small''" "15 / 100" "Fin 0", OF _ _ l] by simp
qed

section \<open>Loop counters\<close>

lemma counter_upto_nat: "counter_upto (real n) = [1..<Suc n]"
  by (simp add: counter_upto_def)

lemma counter_upto_zero: "counter_upto 0 = []"
  by (simp add: counter_upto_def)

section \<open>Degenerate inputs\<close>

text \<open>
  C10 (as amended). On an empty contribution list the Freeform calculator returns
  \<open>totalContributed = 0\<close>, \<open>finalValue = 0\<close>, \<open>effectiveAnnualRate = 0\<close> and an empty
  timeline, and the average per-period contribution is the unguarded division
  \<open>totalContributed / periodCount = 0 / 0\<close>, which is \<open>NaN\<close> and not 0.
\<close>

theorem C10_freeform_empty:
  "totalInvestment (calculateFlexibleSIP [] inflationRate) = Fin 0
   \<and> futureValue (calculateFlexibleSIP [] inflationRate) = Fin 0
   \<and> effectiveRate (calculateFlexibleSIP [] inflationRate) = Fin 0
   \<and> yearlyBreakdown (calculateFlexibleSIP [] inflationRate) = []
   \<and> months_f (calculateFlexibleSIP [] inflationRate) = Fin 0
   \<and> averageMonthlyAmount (calculateFlexibleSIP [] inflationRate) = Some NaN
   \<and> js_div (Fin 0) (Fin 0) = NaN"
  by (simp add: calculateFlexibleSIP_def Let_def calculateEffectiveRate_def counter_upto_zero
      split: prod.splits)

text \<open>
  That division is not the only one without a guard for degenerate input: with zero
  periods the Goal-Solver's division by the annuity factor returns a non-finite amount.
\<close>

theorem C10_other_unguarded_division_counterexample:
  "\<not> is_finite (requiredMonthlyAmount (calculateGoalBasedSIP (Fin 5000) 0 ''large''))"
  by (simp add: calculateGoalBasedSIP_def Let_def lookupRate_own is_finite_def)

section \<open>The Comparator\<close>

text \<open>
  C3 (as amended). For a shared parameter bundle whose month count \<open>years * 12\<close> is a valid
  array length, the Comparator returns exactly 5 results, in this order:
  Fixed-Contribution for LargeCap, for MidCap, for SmallCap, the Escalating result, and
  the Freeform result on the amount replicated over every period.
\<close>

theorem C3_comparator_five_results:
  assumes "valid_array_length (base_years p * 12)"
    and "a = base_monthlyAmount p" and "y = base_years p"
    and "s = (case base_stepUpPercent p of None \<Rightarrow> Fin 10 | Some v \<Rightarrow> v)"
    and "i = (case base_inflationRate p of None \<Rightarrow> Fin 0 | Some v \<Rightarrow> v)"
  shows "compareAllSIPTypes p =
           Inr [calculateRegularSIP a y ''large'' i,
                calculateRegularSIP a y ''mid'' i,
                calculateRegularSIP a y ''small'' i,
                calculateStepUpSIP a y s i,
                calculateFlexibleSIP (replicate (nat \<lfloor>y * 12\<rfloor>) (JNum a)) i]
       \<and> length (projr (compareAllSIPTypes p)) = 5
       \<and> map type_f (projr (compareAllSIPTypes p)) =
           [''Regular SIP'', ''Regular SIP'', ''Regular SIP'', ''Step-up SIP'', ''Flexible SIP'']
       \<and> map category_f (take 3 (projr (compareAllSIPTypes p))) =
           [Label ''Large Cap'', Label ''Mid Cap'', Label ''Small Cap'']
       \<and> map annualRate (projr (compareAllSIPTypes p)) = [Fin 10, Fin 12, Fin 15, Fin 15, Fin 12]"
proof -
  have eq: "compareAllSIPTypes p =
           Inr [calculateRegularSIP a y ''large'' i,
                calculateRegularSIP a y ''mid'' i,
                calculateRegularSIP a y ''small'' i,
                calculateStepUpSIP a y s i,
                calculateFlexibleSIP (replicate (nat \<lfloor>y * 12\<rfloor>) (JNum a)) i]"
    using assms by (simp add: compareAllSIPTypes_def Let_def)
  have types: "type_f (calculateRegularSIP a y c i) = ''Regular SIP''"
    "type_f (calculateStepUpSIP a y s i) = ''Step-up SIP''"
    "type_f (calculateFlexibleSIP xs i) = ''Flexible SIP''" for c xs
    by (simp_all add: calculateRegularSIP_def calculateStepUpSIP_def calculateFlexibleSIP_def
        Let_def split: prod.splits)
  have cats: "category_f (calculateRegularSIP a y c i) = Label (capLabel c)" for c
    by (simp add: calculateRegularSIP_def Let_def split: prod.splits)
  have labels: "capLabel ''large'' = ''Large Cap''" "capLabel ''mid'' = ''Mid Cap''"
    "capLabel ''small'' = ''Small Cap''"
    by (simp_all add: capLabel_def toUpperCase_def)
  have rates: "annualRate (calculateRegularSIP a y c i) = js_mul (lookupRate c) (Fin 100)"
    "annualRate (calculateStepUpSIP a y s i) = Fin 15"
    "annualRate (calculateFlexibleSIP xs i) = Fin 12" for c xs
    by (simp_all add: calculateRegularSIP_def calculateStepUpSIP_def calculateFlexibleSIP_def
        Let_def split: prod.splits)
  show ?thesis
    unfolding eq by (simp add: types cats labels rates lookupRate_own)
qed

theorem C3_comparator_five_results_witness:
  "valid_array_length (base_years \<lparr>base_monthlyAmount = Fin 5000, base_years = 1,
       base_stepUpPercent = None, base_inflationRate = None\<rparr> * 12)
   \<and> compareAllSIPTypes \<lparr>base_monthlyAmount = Fin 5000, base_years = 1,
       base_stepUpPercent = None, base_inflationRate = None\<rparr> =
       Inr [calculateRegularSIP (Fin 5000) 1 ''large'' (Fin 0),
            calculateRegularSIP (Fin 5000) 1 ''mid'' (Fin 0),
            calculateRegularSIP (Fin 5000) 1 ''small'' (Fin 0),
            calculateStepUpSIP (Fin 5000) 1 (Fin 10) (Fin 0),
            calculateFlexibleSIP (replicate 12 (JNum (Fin 5000))) (Fin 0)]"
proof -
  have v: "valid_array_length (base_years \<lparr>base_monthlyAmount = Fin 5000, base_years = 1,
       base_stepUpPercent = None, base_inflationRate = None\<rparr> * 12)"
    by (simp add: valid_array_length_def is_integer_def)
  show ?thesis
    using v C3_comparator_five_results[OF v refl refl refl refl] by simp
qed

text \<open>The Comparator does not return 6 results: one year at 5000 a month gives 5.\<close>

theorem C3_six_results_counterexample:
  "\<not> isl (compareAllSIPTypes \<lparr>base_monthlyAmount = Fin 5000, base_years = 1,
       base_stepUpPercent = Some (Fin 10), base_inflationRate = Some (Fin 0)\<rparr>)
   \<and> length (projr (compareAllSIPTypes \<lparr>base_monthlyAmount = Fin 5000, base_years = 1,
       base_stepUpPercent = Some (Fin 10), base_inflationRate = Some (Fin 0)\<rparr>)) \<noteq> 6"
  by (simp add: compareAllSIPTypes_def Let_def valid_array_length_def is_integer_def)

lemma comparator_range_error:
  "\<not> valid_array_length (base_years p * 12) \<Longrightarrow> compareAllSIPTypes p = Inl RangeError"
  by (simp add: compareAllSIPTypes_def Let_def)

section \<open>The month loop of the Escalating-Contribution calculator\<close>

lemma stepUpMonth_Fin:
  assumes "month \<le> n"
  shows "stepUpMonth (Fin (real n)) (Fin r) (Fin d) month (Fin t, Fin f, Fin a) =
         (Fin (t + a), Fin (f + a * (1 + r) ^ (n - month + 1)),
          Fin (if month mod 12 = 0 \<and> month < n then a * (1 + d) else a))"
proof -
  have "real n - real month + 1 = real (n - month + 1)"
    using assms by (simp add: of_nat_diff)
  then have e: "js_add (js_sub (Fin (real n)) (Fin (real month))) (Fin 1) =
      Fin (real (n - month + 1))"
    unfolding js_sub_Fin js_add.simps by (rule arg_cong)
  show ?thesis
    unfolding stepUpMonth_def Let_def prod.case e js_add.simps Math_pow_nat js_mul.simps
    by simp
qed

lemma stepUp_fold_flat:
  assumes "m \<le> n"
  shows "fold (stepUpMonth (Fin (real n)) (Fin r) (Fin 0)) [1..<Suc m] (Fin 0, Fin 0, Fin A) =
         (Fin (real m * A), Fin (\<Sum>i = 1..m. A * (1 + r) ^ (n - i + 1)), Fin A)"
  using assms
proof (induction m)
  case 0
  then show ?case by simp
next
  case (Suc m)
  then have IH: "fold (stepUpMonth (Fin (real n)) (Fin r) (Fin 0)) [1..<Suc m] (Fin 0, Fin 0, Fin A) =
         (Fin (real m * A), Fin (\<Sum>i = 1..m. A * (1 + r) ^ (n - i + 1)), Fin A)"
    by simp
  show ?case
    using Suc.prems IH by (simp add: stepUpMonth_Fin distrib_right)
qed

lemma geometric_tail:
  fixes A r :: real
  assumes "r \<noteq> 0"
  shows "(\<Sum>i = 1..n. A * (1 + r) ^ (n - i + 1)) = A * ((1 + r) ^ n - 1) / r * (1 + r)"
proof -
  have "(\<Sum>i = 1..n. A * (1 + r) ^ (n - i + 1)) = (\<Sum>i = 1..n. A * (1 + r) ^ (n + 1 - i))"
  proof (rule sum.cong)
    fix i
    assume "i \<in> {1..n}"
    then have "n - i + 1 = n + 1 - i" by auto
    then show "A * (1 + r) ^ (n - i + 1) = A * (1 + r) ^ (n + 1 - i)"
      by (simp only:)
  qed (rule refl)
  also have "\<dots> = (\<Sum>j = 1..n. A * (1 + r) ^ j)"
    by (rule sum.atLeastAtMost_rev [symmetric])
  also have "\<dots> = A * ((1 + r) ^ n - 1) / r * (1 + r)"
  proof (induction n)
    case 0
    then show ?case by simp
  next
    case (Suc n)
    then show ?case using assms by (simp add: field_simps)
  qed
  finally show ?thesis .
qed

lemma stepUp_totalInvestment_fold:
  "totalInvestment (calculateStepUpSIP a y s i) =
     fst (fold (stepUpMonth (Fin (y * 12)) (Fin (0.15 / 12)) (js_div s (Fin 100)))
             (counter_upto (y * 12)) (Fin 0, Fin 0, a))"
  unfolding calculateStepUpSIP_def Let_def case_prod_beta
  apply (simp only: sip_result.simps)
  apply simp
  done

lemma stepUp_futureValue_fold:
  "futureValue (calculateStepUpSIP a y s i) =
     fst (snd (fold (stepUpMonth (Fin (y * 12)) (Fin (0.15 / 12)) (js_div s (Fin 100)))
             (counter_upto (y * 12)) (Fin 0, Fin 0, a)))"
  unfolding calculateStepUpSIP_def Let_def case_prod_beta
  apply (simp only: sip_result.simps)
  apply simp
  done

lemma stepUp_flat_fold:
  "fold (stepUpMonth (Fin (real k * 12)) (Fin (0.15 / 12)) (js_div (Fin 0) (Fin 100)))
     (counter_upto (real k * 12)) (Fin 0, Fin 0, Fin A) =
   (Fin (real (12 * k) * A),
    Fin (\<Sum>j = 1..12 * k. A * (1 + 0.15 / 12) ^ (12 * k - j + 1)), Fin A)"
proof -
  have m: "real k * 12 = real (12 * k)" by simp
  have z: "js_div (Fin 0) (Fin 100) = Fin 0" by simp
  show ?thesis
    unfolding m z counter_upto_nat by (rule stepUp_fold_flat) simp
qed

lemma stepUp_flat_futureValue:
  "futureValue (calculateStepUpSIP (Fin A) (real k) (Fin 0) i) =
     Fin (\<Sum>j = 1..12 * k. A * (1 + 0.15 / 12) ^ (12 * k - j + 1))"
  unfolding stepUp_futureValue_fold stepUp_flat_fold by simp

lemma stepUp_flat_totalInvestment:
  "totalInvestment (calculateStepUpSIP (Fin A) (real k) (Fin 0) i) = Fin (real (12 * k) * A)"
  unfolding stepUp_totalInvestment_fold stepUp_flat_fold by simp

text \<open>
  C4. With an escalation of 0 the Escalating-Contribution calculator returns the
  \<open>finalValue\<close> of the Fixed-Contribution calculator on the same amount and whole number
  of years in category SmallCap (annual rate 0.15): the sum over the periods
  \<open>i = 1..n\<close> of \<open>A * (1+r)^(n-i+1)\<close> equals the closed form
  \<open>A * ((1+r)^n - 1)/r * (1+r)\<close>.
\<close>

theorem C4_escalating_zero_is_fixed:
  "futureValue (calculateStepUpSIP (Fin A) (real k) (Fin 0) inflationRate) =
     futureValue (calculateRegularSIP (Fin A) (real k) ''small'' inflationRate)
   \<and> futureValue (calculateStepUpSIP (Fin A) (real k) (Fin 0) inflationRate) =
       Fin (\<Sum>i = 1..12 * k. A * (1 + 0.15 / 12) ^ (12 * k - i + 1))
   \<and> (\<Sum>i = 1..12 * k. A * (1 + 0.15 / 12) ^ (12 * k - i + 1)) =
       A * ((1 + 0.15 / 12) ^ (12 * k) - 1) / (0.15 / 12) * (1 + 0.15 / 12)"
proof -
  have n: "real k * 12 = real (12 * k)" by simp
  have geo: "(\<Sum>i = 1..12 * k. A * (1 + 0.15 / 12) ^ (12 * k - i + 1)) =
       A * ((1 + 0.15 / 12) ^ (12 * k) - 1) / (0.15 / 12) * (1 + 0.15 / 12)"
    by (rule geometric_tail) simp
  have fixed: "futureValue (calculateRegularSIP (Fin A) (real k) ''small'' inflationRate) =
       Fin (A * ((1 + 0.15 / 12) ^ (12 * k) - 1) / (0.15 / 12) * (1 + 0.15 / 12))"
    unfolding regular_futureValue[OF n lookupRate_own(3)] by (simp add: spec_finalValue_def)
  have esc: "futureValue (calculateStepUpSIP (Fin A) (real k) (Fin 0) inflationRate) =
       Fin (\<Sum>i = 1..12 * k. A * (1 + 0.15 / 12) ^ (12 * k - i + 1))"
    by (rule stepUp_flat_futureValue)
  have "futureValue (calculateStepUpSIP (Fin A) (real k) (Fin 0) inflationRate) =
     futureValue (calculateRegularSIP (Fin A) (real k) ''small'' inflationRate)"
    unfolding esc fixed geo ..
  then show ?thesis
    using esc geo by (intro conjI)
qed

section \<open>The month loop of the Freeform-Contribution calculator\<close>

lemma entryAmount_not_NaN: "entryAmount e \<noteq> NaN"
  by (simp add: entryAmount_def js_or_def)

lemma flexibleMonth_Fin:
  assumes "m \<le> n" and "entryAmount (xs ! m) \<noteq> PInf"
  shows "flexibleMonth (Fin (real n)) (Fin r) xs m (Fin t, Fin f) =
         (Fin (t + spec_contribution (xs ! m)),
          Fin (f + spec_contribution (xs ! m) * (1 + r) ^ (n - m)))"
proof -
  have "real n - real m = real (n - m)"
    using assms(1) by (simp add: of_nat_diff)
  then have e: "js_sub (Fin (real n)) (Fin (real m)) = Fin (real (n - m))"
    unfolding js_sub_Fin by (rule arg_cong)
  show ?thesis
  proof (cases "entryAmount (xs ! m)")
    case (Fin a)
    then show ?thesis
      unfolding flexibleMonth_def Let_def prod.case e js_add.simps Math_pow_nat
      by (simp add: spec_contribution_def real_of_def)
  next
    case PInf
    with assms(2) show ?thesis by simp
  next
    case NInf
    then show ?thesis
      unfolding flexibleMonth_def Let_def prod.case e js_add.simps Math_pow_nat
      by (simp add: spec_contribution_def js_gt_def)
  next
    case NaN
    then show ?thesis
      using entryAmount_not_NaN by simp
  qed
qed

lemma flexible_fold:
  assumes "m \<le> length xs" and "\<forall>e\<in>set xs. entryAmount e \<noteq> PInf"
  shows "fold (flexibleMonth (Fin (real (length xs))) (Fin r) xs) [0..<m] (Fin 0, Fin 0) =
         (Fin (\<Sum>i<m. spec_contribution (xs ! i)),
          Fin (\<Sum>i<m. spec_contribution (xs ! i) * (1 + r) ^ (length xs - i)))"
  using assms(1)
proof (induction m)
  case 0
  then show ?case by simp
next
  case (Suc m)
  then have IH: "fold (flexibleMonth (Fin (real (length xs))) (Fin r) xs) [0..<m] (Fin 0, Fin 0) =
         (Fin (\<Sum>i<m. spec_contribution (xs ! i)),
          Fin (\<Sum>i<m. spec_contribution (xs ! i) * (1 + r) ^ (length xs - i)))"
    by simp
  have "entryAmount (xs ! m) \<noteq> PInf"
    using Suc.prems assms(2) by simp
  then show ?case
    using Suc.prems by (simp add: IH flexibleMonth_Fin)
qed

lemma flexible_totalInvestment_fold:
  "totalInvestment (calculateFlexibleSIP xs i) =
     fst (fold (flexibleMonth (Fin (real (length xs))) (Fin (0.12 / 12)) xs) [0..<length xs]
            (Fin 0, Fin 0))"
  unfolding calculateFlexibleSIP_def Let_def case_prod_beta
  apply (simp only: sip_result.simps)
  apply simp
  done

lemma flexible_futureValue_fold:
  "futureValue (calculateFlexibleSIP xs i) =
     snd (fold (flexibleMonth (Fin (real (length xs))) (Fin (0.12 / 12)) xs) [0..<length xs]
            (Fin 0, Fin 0))"
  unfolding calculateFlexibleSIP_def Let_def case_prod_beta
  apply (simp only: sip_result.simps)
  apply simp
  done

lemma flexible_effectiveRate:
  "effectiveRate (calculateFlexibleSIP xs i) =
     calculateEffectiveRate (futureValue (calculateFlexibleSIP xs i))
       (totalInvestment (calculateFlexibleSIP xs i)) (Fin (real (length xs) / 12))"
  unfolding calculateFlexibleSIP_def Let_def case_prod_beta
  by (simp only: sip_result.simps)

lemma flexible_totals:
  assumes "\<forall>e\<in>set xs. entryAmount e \<noteq> PInf"
  shows "totalInvestment (calculateFlexibleSIP xs i) =
           Fin (\<Sum>j<length xs. spec_contribution (xs ! j))"
    and "futureValue (calculateFlexibleSIP xs i) =
           Fin (\<Sum>j<length xs. spec_contribution (xs ! j) * (1 + 0.12 / 12) ^ (length xs - j))"
  unfolding flexible_totalInvestment_fold flexible_futureValue_fold
    flexible_fold[OF order_refl assms]
  by simp_all

lemma parseFloat_blank: "parseFloat (JStr '''') = NaN"
  by (simp add: parseFloat_def)

lemma parseFloat_text: "parseFloat (JStr ''abc'') = NaN"
  by (simp add: parseFloat_def is_whitespace_def parse_unsigned_def digit_of_def)

lemma parseFloat_negative: "parseFloat (JStr ''-5'') = Fin (- 5)"
  by (simp add: parseFloat_def is_whitespace_def parse_unsigned_def digit_of_def decimal_def
      parse_exponent_def)

lemma parseFloat_decimal: "parseFloat (JStr ''1000.50'') = Fin 1000.5"
  by (simp add: parseFloat_def is_whitespace_def parse_unsigned_def digit_of_def decimal_def
      parse_exponent_def)
lemma spec_contribution_NaN: "parseFloat e = NaN \<Longrightarrow> spec_contribution e = 0"
  by (simp add: spec_contribution_def entryAmount_def js_or_def)

lemma spec_contribution_Fin:
  "parseFloat e = Fin a \<Longrightarrow> spec_contribution e = (if 0 < a then a else 0)"
  by (simp add: spec_contribution_def entryAmount_def js_or_def real_of_def)

lemma effectiveRate_guard:
  "js_le ti (Fin 0) \<or> y \<le> 0 \<Longrightarrow> calculateEffectiveRate v ti (Fin y) = Fin 0"
  by (auto simp: calculateEffectiveRate_def)

lemma flexible_all_skipped:
  assumes "\<forall>e\<in>set xs. \<not> js_gt (entryAmount e) (Fin 0)"
  shows "totalInvestment (calculateFlexibleSIP xs i) = Fin 0"
    and "futureValue (calculateFlexibleSIP xs i) = Fin 0"
    and "effectiveRate (calculateFlexibleSIP xs i) = Fin 0"
proof -
  have fin: "\<forall>e\<in>set xs. entryAmount e \<noteq> PInf"
    using assms by (auto simp: js_gt_def)
  have zero: "spec_contribution (xs ! j) = 0" if "j < length xs" for j
    using assms that by (simp add: spec_contribution_def)
  show ti: "totalInvestment (calculateFlexibleSIP xs i) = Fin 0"
    unfolding flexible_totals(1)[OF fin] by (simp add: zero)
  show "futureValue (calculateFlexibleSIP xs i) = Fin 0"
    unfolding flexible_totals(2)[OF fin] by (simp add: zero)
  show "effectiveRate (calculateFlexibleSIP xs i) = Fin 0"
    unfolding flexible_effectiveRate ti by (rule effectiveRate_guard) simp
qed

text \<open>
  C7. In a Freeform contribution list an entry that is zero, negative, non-numeric or
  blank counts as zero: non-numeric and blank entries are coerced to 0, and only an
  amount strictly greater than 0 is added to \<open>totalContributed\<close> and to \<open>finalValue\<close>.
  A list whose entries are all of that kind gives \<open>finalValue = 0\<close>,
  \<open>totalContributed = 0\<close> and \<open>effectiveAnnualRate = 0\<close>. (The sums are stated for lists
  without an infinite entry.)
\<close>

theorem C7_freeform_counts_positive_entries:
  assumes "\<forall>e\<in>set monthlyAmounts. entryAmount e \<noteq> PInf"
  shows "totalInvestment (calculateFlexibleSIP monthlyAmounts inflationRate) =
           Fin (\<Sum>i<length monthlyAmounts. spec_contribution (monthlyAmounts ! i))
       \<and> futureValue (calculateFlexibleSIP monthlyAmounts inflationRate) =
           Fin (\<Sum>i<length monthlyAmounts.
                  spec_contribution (monthlyAmounts ! i) *
                  (1 + 0.12 / 12) ^ (length monthlyAmounts - i))
       \<and> (parseFloat e = NaN \<longrightarrow> entryAmount e = Fin 0 \<and> spec_contribution e = 0)
       \<and> (parseFloat e = Fin a \<and> a \<le> 0 \<longrightarrow> spec_contribution e = 0)
       \<and> (parseFloat e = Fin a \<and> 0 < a \<longrightarrow> spec_contribution e = a)
       \<and> parseFloat (JStr '''') = NaN \<and> parseFloat (JStr ''abc'') = NaN
       \<and> spec_contribution (JStr ''-5'') = 0 \<and> spec_contribution (JNum (Fin 0)) = 0
       \<and> ((\<forall>e\<in>set monthlyAmounts. \<not> js_gt (entryAmount e) (Fin 0)) \<longrightarrow>
            totalInvestment (calculateFlexibleSIP monthlyAmounts inflationRate) = Fin 0
          \<and> futureValue (calculateFlexibleSIP monthlyAmounts inflationRate) = Fin 0
          \<and> effectiveRate (calculateFlexibleSIP monthlyAmounts inflationRate) = Fin 0)"
proof -
  have c1: "parseFloat e = NaN \<longrightarrow> entryAmount e = Fin 0 \<and> spec_contribution e = 0"
    by (simp add: spec_contribution_NaN) (simp add: entryAmount_def js_or_def)
  have c2: "parseFloat e = Fin a \<and> a \<le> 0 \<longrightarrow> spec_contribution e = 0"
    by (simp add: spec_contribution_Fin)
  have c3: "parseFloat e = Fin a \<and> 0 < a \<longrightarrow> spec_contribution e = a"
    by (simp add: spec_contribution_Fin)
  have c4: "spec_contribution (JStr ''-5'') = 0"
    using spec_contribution_Fin[OF parseFloat_negative] by simp
  have c5: "spec_contribution (JNum (Fin 0)) = 0"
    by (rule spec_contribution_Fin[of _ 0, simplified]) (simp add: parseFloat_def)
  have c6: "(\<forall>e\<in>set monthlyAmounts. \<not> js_gt (entryAmount e) (Fin 0)) \<longrightarrow>
            totalInvestment (calculateFlexibleSIP monthlyAmounts inflationRate) = Fin 0
          \<and> futureValue (calculateFlexibleSIP monthlyAmounts inflationRate) = Fin 0
          \<and> effectiveRate (calculateFlexibleSIP monthlyAmounts inflationRate) = Fin 0"
    using flexible_all_skipped by blast
  show ?thesis
    using flexible_totals[OF assms, of inflationRate] c1 c2 c3 parseFloat_blank parseFloat_text
      c4 c5 c6
    by (intro conjI)
qed

lemma witness_entries:
  "spec_contribution (JStr ''1000'') = 1000" "spec_contribution (JStr '''') = 0"
  "entryAmount (JStr ''1000'') = Fin 1000" "entryAmount (JStr '''') = Fin 0"
  by (simp_all add: spec_contribution_def real_of_def entryAmount_def js_or_def parseFloat_def
      is_whitespace_def parse_unsigned_def digit_of_def decimal_def parse_exponent_def)

theorem C7_freeform_counts_positive_entries_witness:
  "entryAmount (JStr ''1000'') \<noteq> PInf \<and> entryAmount (JStr '''') \<noteq> PInf
   \<and> totalInvestment (calculateFlexibleSIP [JStr ''1000'', JStr '''', JStr ''1000''] (Fin 0)) =
        Fin 2000
   \<and> futureValue (calculateFlexibleSIP [JStr ''1000'', JStr '''', JStr ''1000''] (Fin 0)) =
        Fin 2040.301"
proof -
  have h: "\<forall>e\<in>set [JStr ''1000'', JStr '''', JStr ''1000'']. entryAmount e \<noteq> PInf"
    by (simp add: witness_entries)
  have three: "{..<3::nat} = {0, 1, 2}" by auto
  show ?thesis
    using h C7_freeform_counts_positive_entries[OF h, where e = "JStr ''''" and a = 0
        and inflationRate = "Fin 0"]
    by (simp add: witness_entries three power3_eq_cube)
qed

text \<open>
  The two-period scenario of the specification: contributions of 1000 and 1000 at 12% a
  year give \<open>1000 * 1.01^2 + 1000 * 1.01 = 2030.1\<close> and a total of 2000.
\<close>

lemma freeform_two_periods:
  "totalInvestment (calculateFlexibleSIP [JNum (Fin 1000), JNum (Fin 1000)] i) = Fin 2000"
  "futureValue (calculateFlexibleSIP [JNum (Fin 1000), JNum (Fin 1000)] i) = Fin 2030.1"
proof -
  have c: "spec_contribution (JNum (Fin 1000)) = 1000"
    by (simp add: spec_contribution_def entryAmount_def parseFloat_def js_or_def real_of_def)
  have h: "\<forall>e\<in>set [JNum (Fin 1000), JNum (Fin 1000)]. entryAmount e \<noteq> PInf"
    by (simp add: entryAmount_def parseFloat_def js_or_def)
  have two: "{..<2::nat} = {0, 1}" by auto
  show "totalInvestment (calculateFlexibleSIP [JNum (Fin 1000), JNum (Fin 1000)] i) = Fin 2000"
    unfolding flexible_totals(1)[OF h] by (simp add: two c)
  show "futureValue (calculateFlexibleSIP [JNum (Fin 1000), JNum (Fin 1000)] i) = Fin 2030.1"
    unfolding flexible_totals(2)[OF h] by (simp add: two c power2_eq_square)
qed

section \<open>The effective rate in the results\<close>

lemma regular_effectiveRate:
  "effectiveRate (calculateRegularSIP a y c i) =
     calculateEffectiveRate (futureValue (calculateRegularSIP a y c i))
       (totalInvestment (calculateRegularSIP a y c i)) (Fin y)"
  unfolding calculateRegularSIP_def Let_def case_prod_beta
  by (simp only: sip_result.simps)

lemma stepUp_effectiveRate:
  "effectiveRate (calculateStepUpSIP a y s i) =
     calculateEffectiveRate (futureValue (calculateStepUpSIP a y s i))
       (totalInvestment (calculateStepUpSIP a y s i)) (Fin y)"
  unfolding calculateStepUpSIP_def Let_def case_prod_beta
  by (simp only: sip_result.simps)

lemma goal_effectiveRate:
  "goal_effectiveRate (calculateGoalBasedSIP g y c) =
     calculateEffectiveRate g (goal_totalInvestment (calculateGoalBasedSIP g y c)) (Fin y)"
  unfolding calculateGoalBasedSIP_def Let_def
  by (simp only: goal_result.simps)

lemma stepUpMonth_zero:
  assumes "0 < 1 + r"
  shows "stepUpMonth (Fin M) (Fin r) (Fin d) month (Fin 0, Fin 0, Fin 0) = (Fin 0, Fin 0, Fin 0)"
  unfolding stepUpMonth_def Let_def prod.case js_sub_Fin js_add.simps Math_pow_powr[OF assms]
  by simp

lemma stepUp_fold_zero:
  assumes "0 < 1 + r"
  shows "fold (stepUpMonth (Fin M) (Fin r) (Fin d)) ms (Fin 0, Fin 0, Fin 0) =
         (Fin 0, Fin 0, Fin 0)"
  by (induction ms) (simp_all add: stepUpMonth_zero[OF assms])

lemma stepUp_zero_totalInvestment:
  "totalInvestment (calculateStepUpSIP (Fin 0) y (Fin d) i) = Fin 0"
proof -
  have d: "js_div (Fin d) (Fin 100) = Fin (d / 100)" by simp
  have r: "(0::real) < 1 + 0.15 / 12" by simp
  show ?thesis
    unfolding stepUp_totalInvestment_fold d stepUp_fold_zero[OF r] by simp
qed

lemma Math_pow_one: "Math_pow (Fin a) (Fin 1) = Fin a"
  using Math_pow_nat[of a 1] by simp

lemma effectiveRate_formula:
  assumes "0 < I" and "0 < y"
  shows "calculateEffectiveRate (Fin V) (Fin I) (Fin y) =
         js_mul (js_sub (Math_pow (Fin (V / I)) (Fin (1 / y))) (Fin 1)) (Fin 100)"
  using assms by (simp add: calculateEffectiveRate_def)

lemma Math_pow_root:
  assumes "0 \<le> x" and "0 < e"
  shows "Math_pow (Fin x) (Fin e) = Fin (x powr e)"
proof (cases "x = 0")
  case True
  with assms(2) show ?thesis by (simp add: Math_pow.simps)
next
  case False
  with assms(1) have "0 < x" by simp
  then show ?thesis by (rule Math_pow_powr)
qed

lemma effectiveRate_powr:
  assumes "0 < I" and "0 < y" and "0 \<le> V"
  shows "calculateEffectiveRate (Fin V) (Fin I) (Fin y) = Fin (((V / I) powr (1 / y) - 1) * 100)"
proof -
  have "Math_pow (Fin (V / I)) (Fin (1 / y)) = Fin ((V / I) powr (1 / y))"
    using assms by (intro Math_pow_root) simp_all
  then show ?thesis
    unfolding effectiveRate_formula[OF assms(1,2)] by simp
qed

text \<open>
  C6. The Effective-Rate Estimator returns
  \<open>((finalValue/totalContributed)^(1/years) - 1) * 100\<close> when \<open>totalContributed > 0\<close> and
  \<open>years > 0\<close> (a real power for a non-negative quotient), and returns 0 by its guard when
  \<open>totalContributed \<le> 0\<close> or \<open>years \<le> 0\<close>. Hence \<open>effectiveAnnualRate\<close> is 0 in the result
  of every calculator for a plan of zero duration and for a plan with zero contribution.
\<close>

theorem C6_effective_rate:
  "(0 < I \<and> 0 < y \<longrightarrow>
      calculateEffectiveRate (Fin V) (Fin I) (Fin y) =
        js_mul (js_sub (Math_pow (Fin (V / I)) (Fin (1 / y))) (Fin 1)) (Fin 100))
   \<and> (0 < I \<and> 0 < y \<and> 0 \<le> V \<longrightarrow>
      calculateEffectiveRate (Fin V) (Fin I) (Fin y) = Fin (((V / I) powr (1 / y) - 1) * 100))
   \<and> (I0 \<le> 0 \<or> y0 \<le> 0 \<longrightarrow> calculateEffectiveRate v (Fin I0) (Fin y0) = Fin 0)
   \<and> (years \<le> 0 \<longrightarrow>
        effectiveRate (calculateRegularSIP amount years category inflationRate) = Fin 0
      \<and> effectiveRate (calculateStepUpSIP amount years stepUp inflationRate) = Fin 0
      \<and> goal_effectiveRate (calculateGoalBasedSIP amount years category) = Fin 0)
   \<and> effectiveRate (calculateFlexibleSIP [] inflationRate) = Fin 0
   \<and> effectiveRate (calculateRegularSIP (Fin 0) duration category inflationRate) = Fin 0
   \<and> effectiveRate (calculateStepUpSIP (Fin 0) duration (Fin d) inflationRate) = Fin 0
   \<and> ((\<forall>e\<in>set monthlyAmounts. \<not> js_gt (entryAmount e) (Fin 0)) \<longrightarrow>
        effectiveRate (calculateFlexibleSIP monthlyAmounts inflationRate) = Fin 0)"
proof -
  have a: "0 < I \<and> 0 < y \<longrightarrow>
      calculateEffectiveRate (Fin V) (Fin I) (Fin y) =
        js_mul (js_sub (Math_pow (Fin (V / I)) (Fin (1 / y))) (Fin 1)) (Fin 100)"
    using effectiveRate_formula by blast
  have b: "0 < I \<and> 0 < y \<and> 0 \<le> V \<longrightarrow>
      calculateEffectiveRate (Fin V) (Fin I) (Fin y) = Fin (((V / I) powr (1 / y) - 1) * 100)"
    using effectiveRate_powr by blast
  have c: "I0 \<le> 0 \<or> y0 \<le> 0 \<longrightarrow> calculateEffectiveRate v (Fin I0) (Fin y0) = Fin 0"
    using effectiveRate_guard[of "Fin I0" y0 v] by auto
  have d: "years \<le> 0 \<longrightarrow>
        effectiveRate (calculateRegularSIP amount years category inflationRate) = Fin 0
      \<and> effectiveRate (calculateStepUpSIP amount years stepUp inflationRate) = Fin 0
      \<and> goal_effectiveRate (calculateGoalBasedSIP amount years category) = Fin 0"
    unfolding regular_effectiveRate stepUp_effectiveRate goal_effectiveRate
    by (simp add: effectiveRate_guard)
  have e: "effectiveRate (calculateFlexibleSIP [] inflationRate) = Fin 0"
    by (rule flexible_all_skipped(3)) simp
  have f: "effectiveRate (calculateRegularSIP (Fin 0) duration category inflationRate) = Fin 0"
    unfolding regular_effectiveRate regular_totalInvestment
    by (rule effectiveRate_guard) simp
  have g: "effectiveRate (calculateStepUpSIP (Fin 0) duration (Fin d) inflationRate) = Fin 0"
    unfolding stepUp_effectiveRate stepUp_zero_totalInvestment
    by (rule effectiveRate_guard) simp
  have h: "(\<forall>e\<in>set monthlyAmounts. \<not> js_gt (entryAmount e) (Fin 0)) \<longrightarrow>
        effectiveRate (calculateFlexibleSIP monthlyAmounts inflationRate) = Fin 0"
    using flexible_all_skipped(3) by blast
  show ?thesis
    using a b c d e f g h by (intro conjI)
qed

theorem C6_effective_rate_witness:
  "(0::real) < 100 \<and> (0::real) < 1 \<and> (0::real) \<le> 121
   \<and> calculateEffectiveRate (Fin 121) (Fin 100) (Fin 1) = Fin 21
   \<and> ((0::real) \<le> 0 \<or> (5::real) \<le> 0)
   \<and> calculateEffectiveRate (Fin 121) (Fin 0) (Fin 5) = Fin 0
   \<and> (0::real) \<le> 0
   \<and> effectiveRate (calculateRegularSIP (Fin 1000) 0 ''mid'' (Fin 0)) = Fin 0
   \<and> \<not> js_gt (entryAmount (JNum (Fin 0))) (Fin 0)
   \<and> effectiveRate (calculateFlexibleSIP [JNum (Fin 0), JNum (Fin 0)] (Fin 0)) = Fin 0"
proof -
  have z: "\<forall>e\<in>set [JNum (Fin 0), JNum (Fin 0)]. \<not> js_gt (entryAmount e) (Fin 0)"
    by (simp add: entryAmount_def parseFloat_def js_or_def)
  show ?thesis
    using z C6_effective_rate[where I = 100 and y = 1 and V = 121 and ?I0.0 = 0 and ?y0.0 = 5
        and v = "Fin 121" and years = 0 and amount = "Fin 1000" and category = "''mid''"
        and inflationRate = "Fin 0" and monthlyAmounts = "[JNum (Fin 0), JNum (Fin 0)]"]
    by (simp add: Math_pow_one)
qed

section \<open>The yearly breakdown\<close>

lemma regular_yearlyBreakdown:
  "yearlyBreakdown (calculateRegularSIP a y c i) =
     map (regularYear a (js_div (lookupRate c) (Fin 12))) (counter_upto y)"
  unfolding calculateRegularSIP_def Let_def case_prod_beta
  by (simp only: sip_result.simps)

lemma regular_totalInvestment_any:
  "totalInvestment (calculateRegularSIP a y c i) = js_mul a (js_mul (Fin y) (Fin 12))"
  unfolding calculateRegularSIP_def Let_def case_prod_beta
  by (simp only: sip_result.simps)

lemma regularYear_investment:
  "investment (regularYear a r j) = js_mul a (js_mul (Fin (real j)) (Fin 12))"
  unfolding regularYear_def Let_def by (simp only: year_entry.simps)

lemma length_counter_upto: "length (counter_upto y) = nat \<lfloor>y\<rfloor>"
  by (simp only: counter_upto_def length_upt diff_Suc_1)

lemma last_counter_upto_nat: "0 < k \<Longrightarrow> last (counter_upto (real k)) = k"
  unfolding counter_upto_nat by (cases k) simp_all

lemma counter_upto_nat_nonempty: "0 < k \<Longrightarrow> counter_upto (real k) \<noteq> []"
  unfolding counter_upto_nat by simp

lemma regular_timeline:
  assumes "0 < k"
  shows "length (yearlyBreakdown (calculateRegularSIP a (real k) c i)) = k"
    and "investment (last (yearlyBreakdown (calculateRegularSIP a (real k) c i))) =
         totalInvestment (calculateRegularSIP a (real k) c i)"
proof -
  show "length (yearlyBreakdown (calculateRegularSIP a (real k) c i)) = k"
    unfolding regular_yearlyBreakdown by (simp add: length_counter_upto)
  show "investment (last (yearlyBreakdown (calculateRegularSIP a (real k) c i))) =
         totalInvestment (calculateRegularSIP a (real k) c i)"
    unfolding regular_yearlyBreakdown regular_totalInvestment_any
      last_map[OF counter_upto_nat_nonempty[OF assms]] last_counter_upto_nat[OF assms]
      regularYear_investment ..
qed

text \<open>The two month bodies of the Freeform calculator agree on the running totals.\<close>

lemma flexibleYearMonth_totals:
  "(case flexibleYearMonth M r xs m (ci, cv, yi) of (ci', cv', yi') \<Rightarrow> (ci', cv')) =
   flexibleMonth M r xs m (ci, cv)"
  by (simp add: flexibleYearMonth_def flexibleMonth_def Let_def)

lemma fold_flexibleYearMonth_totals:
  "(case fold (flexibleYearMonth M r xs) ms (ci, cv, yi) of (ci', cv', yi') \<Rightarrow> (ci', cv')) =
   fold (flexibleMonth M r xs) ms (ci, cv)"
proof (induction ms arbitrary: ci cv yi)
  case Nil
  then show ?case by simp
next
  case (Cons m ms)
  obtain ci1 cv1 yi1 where s: "flexibleYearMonth M r xs m (ci, cv, yi) = (ci1, cv1, yi1)"
    by (cases "flexibleYearMonth M r xs m (ci, cv, yi)") auto
  then have "flexibleMonth M r xs m (ci, cv) = (ci1, cv1)"
    using flexibleYearMonth_totals[of M r xs m ci cv yi] by simp
  then show ?case
    using Cons.IH[of ci1 cv1 yi1] s by simp
qed

lemma flexibleYear_step:
  assumes "fold (flexibleMonth (Fin (real n)) r xs) [(y - 1) * 12..<min (y * 12) n] (ci, cv) =
           (ci', cv')"
  shows "\<exists>e. flexibleYear n r xs y (ci, cv, bd) = (ci', cv', bd @ [e]) \<and> investment e = ci'"
proof -
  obtain a b c where f: "fold (flexibleYearMonth (Fin (real n)) r xs)
      [(y - 1) * 12..<min (y * 12) n] (ci, cv, Fin 0) = (a, b, c)"
    by (cases "fold (flexibleYearMonth (Fin (real n)) r xs)
      [(y - 1) * 12..<min (y * 12) n] (ci, cv, Fin 0)") auto
  then have "(a, b) = (ci', cv')"
    using fold_flexibleYearMonth_totals[of "Fin (real n)" r xs
        "[(y - 1) * 12..<min (y * 12) n]" ci cv "Fin 0"] assms by simp
  then show ?thesis
    using f by (simp add: flexibleYear_def Let_def)
qed

lemma upt_year_chunks:
  "[0..<min (j * 12) n] @ [j * 12..<min (Suc j * 12) n] = [0..<min (Suc j * 12) n]"
proof (cases "j * 12 \<le> n")
  case True
  then have "min (j * 12) n = j * 12" by simp
  moreover have "j * 12 \<le> min (Suc j * 12) n" using True by simp
  ultimately show ?thesis
    using upt_add_eq_append[of 0 "j * 12" "min (Suc j * 12) n - j * 12"] by simp
next
  case False
  then show ?thesis by simp
qed

lemma flexible_years_fold:
  "\<exists>bd. fold (flexibleYear n r xs) [1..<Suc j] (Fin 0, Fin 0, []) =
          (fst (fold (flexibleMonth (Fin (real n)) r xs) [0..<min (j * 12) n] (Fin 0, Fin 0)),
           snd (fold (flexibleMonth (Fin (real n)) r xs) [0..<min (j * 12) n] (Fin 0, Fin 0)),
           bd)
        \<and> length bd = j
        \<and> (0 < j \<longrightarrow> investment (last bd) =
              fst (fold (flexibleMonth (Fin (real n)) r xs) [0..<min (j * 12) n] (Fin 0, Fin 0)))"
proof (induction j)
  case 0
  then show ?case by simp
next
  case (Suc j)
  then obtain bd where IH:
    "fold (flexibleYear n r xs) [1..<Suc j] (Fin 0, Fin 0, []) =
          (fst (fold (flexibleMonth (Fin (real n)) r xs) [0..<min (j * 12) n] (Fin 0, Fin 0)),
           snd (fold (flexibleMonth (Fin (real n)) r xs) [0..<min (j * 12) n] (Fin 0, Fin 0)),
           bd)"
    and len: "length bd = j"
    by blast
  define s where "s = fold (flexibleMonth (Fin (real n)) r xs) [0..<min (j * 12) n] (Fin 0, Fin 0)"
  define s' where "s' = fold (flexibleMonth (Fin (real n)) r xs) [0..<min (Suc j * 12) n] (Fin 0, Fin 0)"
  have "s' = fold (flexibleMonth (Fin (real n)) r xs) [j * 12..<min (Suc j * 12) n] s"
    unfolding s'_def s_def upt_year_chunks[of j n, symmetric] by simp
  then have "fold (flexibleMonth (Fin (real n)) r xs) [(Suc j - 1) * 12..<min (Suc j * 12) n]
      (fst s, snd s) = (fst s', snd s')"
    by simp
  from flexibleYear_step[OF this, of bd]
  obtain e where e: "flexibleYear n r xs (Suc j) (fst s, snd s, bd) = (fst s', snd s', bd @ [e])"
    and inv: "investment e = fst s'"
    by blast
  have "fold (flexibleYear n r xs) [1..<Suc (Suc j)] (Fin 0, Fin 0, []) =
      flexibleYear n r xs (Suc j) (fold (flexibleYear n r xs) [1..<Suc j] (Fin 0, Fin 0, []))"
    by simp
  also have "\<dots> = (fst s', snd s', bd @ [e])"
    unfolding IH s_def[symmetric] by (rule e)
  finally show ?case
    using len inv unfolding s'_def by auto
qed
lemma flexible_yearlyBreakdown_fold:
  "yearlyBreakdown (calculateFlexibleSIP xs i) =
     snd (snd (fold (flexibleYear (length xs) (js_div (Fin 0.12) (Fin 12)) xs)
                 (counter_upto (of_int \<lceil>real (length xs) / 12\<rceil>)) (Fin 0, Fin 0, [])))"
  unfolding calculateFlexibleSIP_def Let_def case_prod_beta
  by (simp only: sip_result.simps)

lemma flexible_totalInvestment_fold_any:
  "totalInvestment (calculateFlexibleSIP xs i) =
     fst (fold (flexibleMonth (Fin (real (length xs))) (js_div (Fin 0.12) (Fin 12)) xs)
            [0..<length xs] (Fin 0, Fin 0))"
  unfolding calculateFlexibleSIP_def Let_def case_prod_beta
  by (simp only: sip_result.simps)

lemma months_within_ceiling_years: "min (nat \<lceil>real n / 12\<rceil> * 12) n = n"
proof -
  have "real n / 12 \<le> real_of_int \<lceil>real n / 12\<rceil>"
    by (rule le_of_int_ceiling)
  then have "int n \<le> \<lceil>real n / 12\<rceil> * 12"
    by linarith
  then have "n \<le> nat \<lceil>real n / 12\<rceil> * 12"
    by linarith
  then show ?thesis by simp
qed

lemma flexible_timeline:
  shows "length (yearlyBreakdown (calculateFlexibleSIP xs i)) = nat \<lceil>real (length xs) / 12\<rceil>"
    and "xs \<noteq> [] \<Longrightarrow>
         investment (last (yearlyBreakdown (calculateFlexibleSIP xs i))) =
         totalInvestment (calculateFlexibleSIP xs i)"
proof -
  define n where "n = length xs"
  define Y where "Y = nat \<lceil>real n / 12\<rceil>"
  define r where "r = js_div (Fin 0.12) (Fin 12)"
  have c: "counter_upto (of_int \<lceil>real n / 12\<rceil>) = [1..<Suc Y]"
    by (simp add: counter_upto_def Y_def)
  obtain bd where bd:
    "fold (flexibleYear n r xs) [1..<Suc Y] (Fin 0, Fin 0, []) =
       (fst (fold (flexibleMonth (Fin (real n)) r xs) [0..<min (Y * 12) n] (Fin 0, Fin 0)),
        snd (fold (flexibleMonth (Fin (real n)) r xs) [0..<min (Y * 12) n] (Fin 0, Fin 0)),
        bd)"
    and len: "length bd = Y"
    and inv: "0 < Y \<longrightarrow> investment (last bd) =
        fst (fold (flexibleMonth (Fin (real n)) r xs) [0..<min (Y * 12) n] (Fin 0, Fin 0))"
    using flexible_years_fold[of n r xs Y] by blast
  have m: "min (Y * 12) n = n"
    unfolding Y_def by (rule months_within_ceiling_years)
  have tl: "yearlyBreakdown (calculateFlexibleSIP xs i) = bd"
    unfolding flexible_yearlyBreakdown_fold n_def[symmetric] r_def[symmetric] c bd by simp
  show "length (yearlyBreakdown (calculateFlexibleSIP xs i)) = nat \<lceil>real (length xs) / 12\<rceil>"
    unfolding tl len Y_def n_def ..
  show "investment (last (yearlyBreakdown (calculateFlexibleSIP xs i))) =
         totalInvestment (calculateFlexibleSIP xs i)" if "xs \<noteq> []"
  proof -
    from that have "0 < real n / 12" by (simp add: n_def)
    then have "0 < Y" unfolding Y_def by simp
    with inv have "investment (last bd) =
        fst (fold (flexibleMonth (Fin (real n)) r xs) [0..<n] (Fin 0, Fin 0))"
      unfolding m by simp
    then show ?thesis
      unfolding tl flexible_totalInvestment_fold_any n_def r_def .
  qed
qed

text \<open>
  The Escalating calculator: inside a year the month body of the breakdown does what the
  month body of the main loop does, and the amount grows after each year but the last.
\<close>

lemma stepUp_month_in_year:
  assumes "j < k" and "1 \<le> q" and "q \<le> 12"
  shows "stepUpMonth (Fin (real k * 12)) r d (j * 12 + q) (t, f, c) =
         (fst (stepUpYearMonth (Fin (real k * 12)) r c (Suc j) q (t, f)),
          snd (stepUpYearMonth (Fin (real k * 12)) r c (Suc j) q (t, f)),
          if q = 12 \<and> Suc j < k then js_mul c (js_add (Fin 1) d) else c)"
proof -
  have le: "real (j * 12 + q) \<le> real k * 12"
  proof -
    have "j * 12 + q \<le> k * 12" using assms by simp
    then have "real (j * 12 + q) \<le> real (k * 12)" by (rule of_nat_mono)
    then show ?thesis by simp
  qed
  have mod: "(j * 12 + q) mod 12 = 0 \<longleftrightarrow> q = 12"
    using assms(2,3) by (cases "q = 12") simp_all
  have lt: "real (j * 12 + 12) < real k * 12 \<longleftrightarrow> Suc j < k"
  proof -
    have e: "real (k * 12) = real k * 12" by simp
    show ?thesis
      unfolding e[symmetric] of_nat_less_iff by auto
  qed
  have idx: "(Suc j - 1) * 12 + q = j * 12 + q" by simp
  show ?thesis
    unfolding stepUpMonth_def stepUpYearMonth_def Let_def prod.case idx js_le_Fin js_lt.simps mod
    using le lt by (simp del: of_nat_add of_nat_mult)
qed

lemma stepUp_months_of_year:
  assumes "j < k" and "p \<le> 11"
  shows "fold (stepUpMonth (Fin (real k * 12)) r d) [j * 12 + 1..<j * 12 + 1 + p] (t, f, c) =
         (fst (fold (stepUpYearMonth (Fin (real k * 12)) r c (Suc j)) [1..<1 + p] (t, f)),
          snd (fold (stepUpYearMonth (Fin (real k * 12)) r c (Suc j)) [1..<1 + p] (t, f)),
          c)"
  using assms(2)
proof (induction p)
  case 0
  then show ?case by simp
next
  case (Suc p)
  define X where "X = fold (stepUpYearMonth (Fin (real k * 12)) r c (Suc j)) [1..<1 + p] (t, f)"
  have IH: "fold (stepUpMonth (Fin (real k * 12)) r d) [j * 12 + 1..<j * 12 + 1 + p] (t, f, c) =
      (fst X, snd X, c)"
    unfolding X_def using Suc by simp
  have q: "1 \<le> 1 + p" "1 + p \<le> 12" "1 + p \<noteq> 12"
    using Suc.prems by simp_all
  have "fold (stepUpMonth (Fin (real k * 12)) r d) [j * 12 + 1..<j * 12 + 1 + Suc p] (t, f, c) =
      stepUpMonth (Fin (real k * 12)) r d (j * 12 + (1 + p)) (fst X, snd X, c)"
    using IH by simp
  also have "\<dots> = (fst (stepUpYearMonth (Fin (real k * 12)) r c (Suc j) (1 + p) (fst X, snd X)),
      snd (stepUpYearMonth (Fin (real k * 12)) r c (Suc j) (1 + p) (fst X, snd X)), c)"
    unfolding stepUp_month_in_year[OF assms(1) q(1,2)] using q(3) by simp
  also have "stepUpYearMonth (Fin (real k * 12)) r c (Suc j) (1 + p) (fst X, snd X) =
      fold (stepUpYearMonth (Fin (real k * 12)) r c (Suc j)) [1..<1 + Suc p] (t, f)"
    unfolding X_def by simp
  finally show ?case .
qed

lemma stepUp_whole_year:
  assumes "j < k"
  shows "fold (stepUpMonth (Fin (real k * 12)) r d) [j * 12 + 1..<Suc (Suc j * 12)] (t, f, c) =
         (fst (fold (stepUpYearMonth (Fin (real k * 12)) r c (Suc j)) [1..<13] (t, f)),
          snd (fold (stepUpYearMonth (Fin (real k * 12)) r c (Suc j)) [1..<13] (t, f)),
          if Suc j < k then js_mul c (js_add (Fin 1) d) else c)"
proof -
  define X where "X = fold (stepUpYearMonth (Fin (real k * 12)) r c (Suc j)) [1..<1 + 11] (t, f)"
  have split: "[j * 12 + 1..<Suc (Suc j * 12)] = [j * 12 + 1..<j * 12 + 1 + 11] @ [j * 12 + 12]"
    by (simp add: upt_rec)
  have split': "[1..<13::nat] = [1..<1 + 11] @ [12]"
    by (simp add: upt_rec)
  have q12: "(1::nat) \<le> 12" "(12::nat) \<le> 12"
    by simp_all
  have m11: "fold (stepUpMonth (Fin (real k * 12)) r d) [j * 12 + 1..<j * 12 + 1 + 11] (t, f, c) =
      (fst X, snd X, c)"
    unfolding X_def by (rule stepUp_months_of_year[OF assms]) simp
  have "fold (stepUpMonth (Fin (real k * 12)) r d) [j * 12 + 1..<Suc (Suc j * 12)] (t, f, c) =
      stepUpMonth (Fin (real k * 12)) r d (j * 12 + 12) (fst X, snd X, c)"
    unfolding split fold_append comp_def m11 by simp
  also have "\<dots> = (fst (stepUpYearMonth (Fin (real k * 12)) r c (Suc j) 12 (fst X, snd X)),
      snd (stepUpYearMonth (Fin (real k * 12)) r c (Suc j) 12 (fst X, snd X)),
      if Suc j < k then js_mul c (js_add (Fin 1) d) else c)"
    unfolding stepUp_month_in_year[OF assms q12] by simp
  also have "stepUpYearMonth (Fin (real k * 12)) r c (Suc j) 12 (fst X, snd X) =
      fold (stepUpYearMonth (Fin (real k * 12)) r c (Suc j)) [1..<13] (t, f)"
    unfolding split' fold_append comp_def X_def by simp
  finally show ?thesis .
qed
lemma stepUpYear_step:
  "\<exists>e. stepUpYear (real k) M r d (Suc j) (t, f, c, bd) =
         (fst (fold (stepUpYearMonth M r c (Suc j)) [1..<13] (t, f)),
          snd (fold (stepUpYearMonth M r c (Suc j)) [1..<13] (t, f)),
          (if Suc j < k then js_mul c (js_add (Fin 1) d) else c),
          bd @ [e])
       \<and> investment e = fst (fold (stepUpYearMonth M r c (Suc j)) [1..<13] (t, f))"
  unfolding stepUpYear_def Let_def case_prod_beta
  by simp

lemma stepUp_years_fold:
  assumes "j \<le> k"
  shows "\<exists>bd. fold (stepUpYear (real k) (Fin (real k * 12)) r d) [1..<Suc j] (Fin 0, Fin 0, a, []) =
            (fst (fold (stepUpMonth (Fin (real k * 12)) r d) [1..<Suc (j * 12)] (Fin 0, Fin 0, a)),
             fst (snd (fold (stepUpMonth (Fin (real k * 12)) r d) [1..<Suc (j * 12)]
                         (Fin 0, Fin 0, a))),
             snd (snd (fold (stepUpMonth (Fin (real k * 12)) r d) [1..<Suc (j * 12)]
                         (Fin 0, Fin 0, a))),
             bd)
        \<and> length bd = j
        \<and> (0 < j \<longrightarrow> investment (last bd) =
              fst (fold (stepUpMonth (Fin (real k * 12)) r d) [1..<Suc (j * 12)]
                     (Fin 0, Fin 0, a)))"
  using assms
proof (induction j)
  case 0
  then show ?case by simp
next
  case (Suc j)
  define S where "S = fold (stepUpMonth (Fin (real k * 12)) r d) [1..<Suc (j * 12)] (Fin 0, Fin 0, a)"
  define S' where
    "S' = fold (stepUpMonth (Fin (real k * 12)) r d) [1..<Suc (Suc j * 12)] (Fin 0, Fin 0, a)"
  from Suc obtain bd where IH:
    "fold (stepUpYear (real k) (Fin (real k * 12)) r d) [1..<Suc j] (Fin 0, Fin 0, a, []) =
       (fst S, fst (snd S), snd (snd S), bd)"
    and len: "length bd = j"
    unfolding S_def by auto
  have jk: "j < k" using Suc.prems by simp
  have chunks: "[1..<Suc (Suc j * 12)] = [1..<Suc (j * 12)] @ [j * 12 + 1..<Suc (Suc j * 12)]"
    using upt_add_eq_append[of 1 "Suc (j * 12)" 12] by simp
  define X where
    "X = fold (stepUpYearMonth (Fin (real k * 12)) r (snd (snd S)) (Suc j)) [1..<13]
           (fst S, fst (snd S))"
  have "S' = fold (stepUpMonth (Fin (real k * 12)) r d) [j * 12 + 1..<Suc (Suc j * 12)]
               (fst S, fst (snd S), snd (snd S))"
    unfolding S'_def chunks fold_append comp_def S_def by simp
  then have S': "S' = (fst X, snd X,
      if Suc j < k then js_mul (snd (snd S)) (js_add (Fin 1) d) else snd (snd S))"
    unfolding stepUp_whole_year[OF jk] X_def .
  obtain e where e: "stepUpYear (real k) (Fin (real k * 12)) r d (Suc j)
        (fst S, fst (snd S), snd (snd S), bd) =
      (fst X, snd X,
       (if Suc j < k then js_mul (snd (snd S)) (js_add (Fin 1) d) else snd (snd S)), bd @ [e])"
    and inv: "investment e = fst X"
    unfolding X_def using stepUpYear_step by blast
  have "fold (stepUpYear (real k) (Fin (real k * 12)) r d) [1..<Suc (Suc j)]
          (Fin 0, Fin 0, a, []) =
        stepUpYear (real k) (Fin (real k * 12)) r d (Suc j)
          (fold (stepUpYear (real k) (Fin (real k * 12)) r d) [1..<Suc j] (Fin 0, Fin 0, a, []))"
    by simp
  also have "\<dots> = (fst S', fst (snd S'), snd (snd S'), bd @ [e])"
    unfolding IH e S' by simp
  finally have "fold (stepUpYear (real k) (Fin (real k * 12)) r d) [1..<Suc (Suc j)]
          (Fin 0, Fin 0, a, []) = (fst S', fst (snd S'), snd (snd S'), bd @ [e])" .
  moreover have "investment (last (bd @ [e])) = fst S'"
    using inv S' by simp
  moreover have "length (bd @ [e]) = Suc j"
    using len by simp
  ultimately show ?case
    unfolding S'_def by blast
qed

lemma stepUp_yearlyBreakdown_fold:
  "yearlyBreakdown (calculateStepUpSIP a y s i) =
     snd (snd (snd (fold (stepUpYear y (js_mul (Fin y) (Fin 12)) (js_div (Fin 0.15) (Fin 12))
                            (js_div s (Fin 100)))
                      (counter_upto y) (Fin 0, Fin 0, a, []))))"
  unfolding calculateStepUpSIP_def Let_def case_prod_beta
  by (simp only: sip_result.simps)

lemma stepUp_totalInvestment_fold_any:
  "totalInvestment (calculateStepUpSIP a y s i) =
     fst (fold (stepUpMonth (js_mul (Fin y) (Fin 12)) (js_div (Fin 0.15) (Fin 12))
                  (js_div s (Fin 100)))
            (counter_upto (y * 12)) (Fin 0, Fin 0, a))"
  unfolding calculateStepUpSIP_def Let_def case_prod_beta
  by (simp only: sip_result.simps)

lemma stepUp_timeline:
  assumes "0 < k"
  shows "length (yearlyBreakdown (calculateStepUpSIP a (real k) s i)) = k"
    and "investment (last (yearlyBreakdown (calculateStepUpSIP a (real k) s i))) =
         totalInvestment (calculateStepUpSIP a (real k) s i)"
proof -
  define r where "r = js_div (Fin 0.15) (Fin 12)"
  define d where "d = js_div s (Fin 100)"
  have M: "js_mul (Fin (real k)) (Fin 12) = Fin (real k * 12)" by simp
  have c: "counter_upto (real k * 12) = [1..<Suc (k * 12)]"
    using counter_upto_nat[of "k * 12"] by simp
  obtain bd where bd:
    "fold (stepUpYear (real k) (Fin (real k * 12)) r d) [1..<Suc k] (Fin 0, Fin 0, a, []) =
       (fst (fold (stepUpMonth (Fin (real k * 12)) r d) [1..<Suc (k * 12)] (Fin 0, Fin 0, a)),
        fst (snd (fold (stepUpMonth (Fin (real k * 12)) r d) [1..<Suc (k * 12)]
                    (Fin 0, Fin 0, a))),
        snd (snd (fold (stepUpMonth (Fin (real k * 12)) r d) [1..<Suc (k * 12)]
                    (Fin 0, Fin 0, a))),
        bd)"
    and len: "length bd = k"
    and inv: "investment (last bd) =
        fst (fold (stepUpMonth (Fin (real k * 12)) r d) [1..<Suc (k * 12)] (Fin 0, Fin 0, a))"
    using stepUp_years_fold[OF order_refl, of k r d a] assms by blast
  have tl: "yearlyBreakdown (calculateStepUpSIP a (real k) s i) = bd"
    unfolding stepUp_yearlyBreakdown_fold M r_def[symmetric] d_def[symmetric]
      counter_upto_nat bd by simp
  show "length (yearlyBreakdown (calculateStepUpSIP a (real k) s i)) = k"
    unfolding tl by (rule len)
  show "investment (last (yearlyBreakdown (calculateStepUpSIP a (real k) s i))) =
         totalInvestment (calculateStepUpSIP a (real k) s i)"
    unfolding tl inv stepUp_totalInvestment_fold_any M r_def[symmetric] d_def[symmetric] c ..
qed
lemma regular_months:
  "months_f (calculateRegularSIP a y c i) = js_mul (Fin y) (Fin 12)"
  unfolding calculateRegularSIP_def Let_def case_prod_beta
  by (simp only: sip_result.simps)

lemma stepUp_months:
  "months_f (calculateStepUpSIP a y s i) = js_mul (Fin y) (Fin 12)"
  unfolding calculateStepUpSIP_def Let_def case_prod_beta
  by (simp only: sip_result.simps)

lemma whole_years_ceiling: "nat \<lceil>real (12 * k) / 12\<rceil> = k"
proof -
  have "real (12 * k) / 12 = real k" by simp
  then show ?thesis by (simp only: ceiling_of_nat nat_int)
qed

text \<open>
  C5 (as amended). Timeline consistency: for every Freeform calculation with at least one
  period, and for every Fixed or Escalating calculation over a whole number of years (at
  least one, so that the period count is 12 times that number), the timeline has length
  \<open>ceil(periodCount / 12)\<close> and the cumulative contribution of its last entry equals the
  top-level \<open>totalContributed\<close>, although Fixed recomputes each year independently while
  Escalating and Freeform accumulate running totals. The timeline of Fixed lists the
  completed years only: its length is \<open>floor(years)\<close> for every duration.
\<close>

theorem C5_timeline_consistency:
  "(monthlyAmounts \<noteq> [] \<longrightarrow>
      length (yearlyBreakdown (calculateFlexibleSIP monthlyAmounts inflationRate)) =
        nat \<lceil>real (length monthlyAmounts) / 12\<rceil>
    \<and> investment (last (yearlyBreakdown (calculateFlexibleSIP monthlyAmounts inflationRate))) =
        totalInvestment (calculateFlexibleSIP monthlyAmounts inflationRate))
   \<and> (0 < k \<longrightarrow>
      months_f (calculateRegularSIP amount (real k) category inflationRate) = Fin (real (12 * k))
    \<and> length (yearlyBreakdown (calculateRegularSIP amount (real k) category inflationRate)) =
        nat \<lceil>real (12 * k) / 12\<rceil>
    \<and> investment (last (yearlyBreakdown
          (calculateRegularSIP amount (real k) category inflationRate))) =
        totalInvestment (calculateRegularSIP amount (real k) category inflationRate))
   \<and> (0 < k \<longrightarrow>
      months_f (calculateStepUpSIP amount (real k) stepUp inflationRate) = Fin (real (12 * k))
    \<and> length (yearlyBreakdown (calculateStepUpSIP amount (real k) stepUp inflationRate)) =
        nat \<lceil>real (12 * k) / 12\<rceil>
    \<and> investment (last (yearlyBreakdown
          (calculateStepUpSIP amount (real k) stepUp inflationRate))) =
        totalInvestment (calculateStepUpSIP amount (real k) stepUp inflationRate))
   \<and> length (yearlyBreakdown (calculateRegularSIP amount duration category inflationRate)) =
       nat \<lfloor>duration\<rfloor>"
proof -
  have m: "js_mul (Fin (real k)) (Fin 12) = Fin (real (12 * k))" by simp
  have free: "monthlyAmounts \<noteq> [] \<longrightarrow>
      length (yearlyBreakdown (calculateFlexibleSIP monthlyAmounts inflationRate)) =
        nat \<lceil>real (length monthlyAmounts) / 12\<rceil>
    \<and> investment (last (yearlyBreakdown (calculateFlexibleSIP monthlyAmounts inflationRate))) =
        totalInvestment (calculateFlexibleSIP monthlyAmounts inflationRate)"
    using flexible_timeline by blast
  have fixed: "0 < k \<longrightarrow>
      months_f (calculateRegularSIP amount (real k) category inflationRate) = Fin (real (12 * k))
    \<and> length (yearlyBreakdown (calculateRegularSIP amount (real k) category inflationRate)) =
        nat \<lceil>real (12 * k) / 12\<rceil>
    \<and> investment (last (yearlyBreakdown
          (calculateRegularSIP amount (real k) category inflationRate))) =
        totalInvestment (calculateRegularSIP amount (real k) category inflationRate)"
    unfolding whole_years_ceiling regular_months m
    using regular_timeline by blast
  have esc: "0 < k \<longrightarrow>
      months_f (calculateStepUpSIP amount (real k) stepUp inflationRate) = Fin (real (12 * k))
    \<and> length (yearlyBreakdown (calculateStepUpSIP amount (real k) stepUp inflationRate)) =
        nat \<lceil>real (12 * k) / 12\<rceil>
    \<and> investment (last (yearlyBreakdown
          (calculateStepUpSIP amount (real k) stepUp inflationRate))) =
        totalInvestment (calculateStepUpSIP amount (real k) stepUp inflationRate)"
    unfolding whole_years_ceiling stepUp_months m
    using stepUp_timeline by blast
  have completed: "length (yearlyBreakdown
        (calculateRegularSIP amount duration category inflationRate)) = nat \<lfloor>duration\<rfloor>"
    unfolding regular_yearlyBreakdown length_map by (rule length_counter_upto)
  show ?thesis
    using free fixed esc completed by (intro conjI)
qed

theorem C5_timeline_consistency_witness:
  "replicate 13 (JStr ''500'') \<noteq> []
   \<and> length (yearlyBreakdown (calculateFlexibleSIP (replicate 13 (JStr ''500'')) (Fin 0))) = 2
   \<and> investment (last (yearlyBreakdown
        (calculateFlexibleSIP (replicate 13 (JStr ''500'')) (Fin 0)))) =
      totalInvestment (calculateFlexibleSIP (replicate 13 (JStr ''500'')) (Fin 0))
   \<and> (0::nat) < 3
   \<and> length (yearlyBreakdown (calculateRegularSIP (Fin 1000) (real 3) ''mid'' (Fin 0))) = 3
   \<and> investment (last (yearlyBreakdown
        (calculateRegularSIP (Fin 1000) (real 3) ''mid'' (Fin 0)))) =
      totalInvestment (calculateRegularSIP (Fin 1000) (real 3) ''mid'' (Fin 0))
   \<and> length (yearlyBreakdown (calculateStepUpSIP (Fin 1000) (real 3) (Fin 10) (Fin 0))) = 3
   \<and> investment (last (yearlyBreakdown
        (calculateStepUpSIP (Fin 1000) (real 3) (Fin 10) (Fin 0)))) =
      totalInvestment (calculateStepUpSIP (Fin 1000) (real 3) (Fin 10) (Fin 0))"
proof -
  have c: "nat \<lceil>real (length (replicate 13 (JStr ''500''))) / 12\<rceil> = 2"
    by simp
  have w: "nat \<lceil>real (12 * 3) / 12\<rceil> = 3"
    by (rule whole_years_ceiling)
  have n: "replicate 13 (JStr ''500'') \<noteq> []" "(0::nat) < 3"
    by simp_all
  show ?thesis
    using n C5_timeline_consistency[where monthlyAmounts = "replicate 13 (JStr ''500'')"
        and k = 3 and amount = "Fin 1000" and category = "''mid''" and inflationRate = "Fin 0"
        and stepUp = "Fin 10" and duration = 3]
    unfolding c w by blast
qed

text \<open>
  A Fixed-Contribution calculation over one and a half years has 18 periods, but its
  timeline has one entry, not \<open>ceil(18 / 12) = 2\<close>, and that entry's cumulative contribution
  covers 12 periods, not the 18 of \<open>totalContributed\<close>.
\<close>

theorem C5_fractional_years_counterexample:
  "months_f (calculateRegularSIP (Fin 1000) (3 / 2) ''mid'' (Fin 0)) = Fin 18
   \<and> length (yearlyBreakdown (calculateRegularSIP (Fin 1000) (3 / 2) ''mid'' (Fin 0))) \<noteq>
       nat \<lceil>(18::real) / 12\<rceil>
   \<and> investment (last (yearlyBreakdown (calculateRegularSIP (Fin 1000) (3 / 2) ''mid'' (Fin 0)))) \<noteq>
       totalInvestment (calculateRegularSIP (Fin 1000) (3 / 2) ''mid'' (Fin 0))"
proof -
  have c: "counter_upto (3 / 2) = [1]"
    by (simp add: counter_upto_def)
  show ?thesis
    unfolding regular_months regular_yearlyBreakdown regular_totalInvestment_any c
    by (simp add: regularYear_investment)
qed

end
